theory Spec2Isabelle
  imports Complex_Main
begin

unbundle bit_operations_syntax

section \<open>The syntax tree of \<^verbatim>\<open>ast.ts\<close>\<close>

text \<open>
  Every \<^verbatim>\<open>Node\<close> carries \<^verbatim>\<open>start\<close> and \<^verbatim>\<open>end\<close>; the variant is the
  \<^verbatim>\<open>type\<close> tag. A child that the printer hands to \<^verbatim>\<open>prettyPrint\<close> or
  \<^verbatim>\<open>printStatement\<close>, or whose tag it tests, is a \<open>node\<close> of any variant, because the
  casts of the source check nothing. A child whose fields the printer reads without any
  test has the shape its interface declares: the declarators of a declaration are
  (\<^verbatim>\<open>id\<close>, \<^verbatim>\<open>init\<close>) pairs, the body of a function is the statement list of its
  \<^verbatim>\<open>BlockStatement\<close>, the body of a class is the element list of its \<^verbatim>\<open>ClassBody\<close>,
  the value of a method is the parameters and the block of its \<^verbatim>\<open>FunctionExpression\<close>.
  Fields that no printer reads (\<^verbatim>\<open>value\<close>, \<^verbatim>\<open>flag\<close>, the \<^verbatim>\<open>kind\<close> of a method or
  of a property) are left out. \<open>Unknown t\<close> is a node whose tag \<open>t\<close> is none of the tags
  that \<^verbatim>\<open>prettyPrint\<close> switches on.
\<close>

datatype decl_kind = Kind_var | Kind_let | Kind_const

datatype node = Node (node_start: int) (node_end: int) (shape: shape)
and shape =
    Program "node list"
  | ExpressionStatement node
  | VariableDeclaration decl_kind "(node \<times> node option) list"
  | VariableDeclarator node "node option"
  | Identifier string
  | IfStatement node node "node option"
  | BlockStatement "node list"
  | FunctionDeclaration node "node list" "node list"
  | ClassDeclaration node "node list"
  | ClassBody "node list"
  | ClassElement node "node list" "node list" bool
  | FunctionExpression "node list" "node list"
  | ReturnStatement "node option"
  | Literal string
  | BinaryExpression string node node int
  | UnaryExpression string node
  | CallExpression node "node list"
  | MemberExpression node node bool
  | ArrayExpression "node option list"
  | ObjectExpression "node list"
  | Property node node
  | ArrowFunctionExpression "node list" node
  | ThisExpression
  | SpreadElement node
  | ConditionalExpression node node node int
  | Comment
  | Unknown string

text \<open>The value of the \<^verbatim>\<open>type\<close> field (\<^verbatim>\<open>NodeType.ClassElement\<close> is \<^verbatim>\<open>'MethodDefinition'\<close>).\<close>

fun node_type :: "shape \<Rightarrow> string" where
  "node_type (Program _) = ''Program''"
| "node_type (ExpressionStatement _) = ''ExpressionStatement''"
| "node_type (VariableDeclaration _ _) = ''VariableDeclaration''"
| "node_type (VariableDeclarator _ _) = ''VariableDeclarator''"
| "node_type (Identifier _) = ''Identifier''"
| "node_type (IfStatement _ _ _) = ''IfStatement''"
| "node_type (BlockStatement _) = ''BlockStatement''"
| "node_type (FunctionDeclaration _ _ _) = ''FunctionDeclaration''"
| "node_type (ClassDeclaration _ _) = ''ClassDeclaration''"
| "node_type (ClassBody _) = ''ClassBody''"
| "node_type (ClassElement _ _ _ _) = ''MethodDefinition''"
| "node_type (FunctionExpression _ _) = ''FunctionExpression''"
| "node_type (ReturnStatement _) = ''ReturnStatement''"
| "node_type (Literal _) = ''Literal''"
| "node_type (BinaryExpression _ _ _ _) = ''BinaryExpression''"
| "node_type (UnaryExpression _ _) = ''UnaryExpression''"
| "node_type (CallExpression _ _) = ''CallExpression''"
| "node_type (MemberExpression _ _ _) = ''MemberExpression''"
| "node_type (ArrayExpression _) = ''ArrayExpression''"
| "node_type (ObjectExpression _) = ''ObjectExpression''"
| "node_type (Property _ _) = ''Property''"
| "node_type (ArrowFunctionExpression _ _) = ''ArrowFunctionExpression''"
| "node_type ThisExpression = ''ThisExpression''"
| "node_type (SpreadElement _) = ''SpreadElement''"
| "node_type (ConditionalExpression _ _ _ _) = ''ConditionalExpression''"
| "node_type Comment = ''Comment''"
| "node_type (Unknown t) = t"

definition mapped_types :: "string list" where
  "mapped_types =
    [''Program'', ''ExpressionStatement'', ''VariableDeclaration'', ''VariableDeclarator'',
     ''Identifier'', ''IfStatement'', ''BlockStatement'', ''FunctionDeclaration'',
     ''ClassDeclaration'', ''ClassBody'', ''MethodDefinition'', ''FunctionExpression'',
     ''ReturnStatement'', ''Literal'', ''BinaryExpression'', ''UnaryExpression'',
     ''CallExpression'', ''MemberExpression'', ''ArrayExpression'', ''ObjectExpression'',
     ''Property'', ''ArrowFunctionExpression'', ''ThisExpression'', ''SpreadElement'',
     ''ConditionalExpression'', ''Comment'']"

fun kind_str :: "decl_kind \<Rightarrow> string" where
  "kind_str Kind_var = ''var''"
| "kind_str Kind_let = ''let''"
| "kind_str Kind_const = ''const''"

section \<open>Options, ambient state and errors\<close>

datatype CommentFormat = Multiline | SingleLine | Html | JsDoc

text \<open>
  A JavaScript number, as \<^verbatim>\<open>String.prototype.repeat\<close> tells numbers apart: a finite value
  (every finite double is a rational), \<^verbatim>\<open>NaN\<close>, or one of the two infinities.
\<close>

datatype number = Finite rat | NaN | PosInfinity | NegInfinity

text \<open>
  The options object. Every field is optional in the source. \<^verbatim>\<open>tabWidth\<close> is a number
  of any value; a missing \<^verbatim>\<open>tabWidth\<close> is \<open>NaN\<close> (what \<^verbatim>\<open>undefined\<close> converts to). The
  bit mask \<^verbatim>\<open>commentPlacementFlag\<close> and \<^verbatim>\<open>printWidth\<close> are integers; a missing
  \<^verbatim>\<open>commentPlacementFlag\<close> behaves as \<open>0\<close> (\<^verbatim>\<open>undefined & 2\<close> is \<open>0\<close>), a missing
  \<^verbatim>\<open>useTabs\<close> or \<^verbatim>\<open>lineBreak\<close> as \<open>False\<close>; a missing \<^verbatim>\<open>commentFormat\<close> is \<open>None\<close>,
  which no case of the switch in \<^verbatim>\<open>printComment\<close> matches.
\<close>

record options =
  printWidth :: int
  tabWidth :: number
  useTabs :: bool
  lineBreak :: bool
  commentPlacement :: string
  commentFormat :: "CommentFormat option"
  commentTypes :: int
  commentPlacementFlag :: int

definition LineBreakFlags_Before :: int where "LineBreakFlags_Before = 1"
definition LineBreakFlags_After :: int where "LineBreakFlags_After = 2"
definition CommentTypeFlags_None :: int where "CommentTypeFlags_None = 0"
definition CommentTypeFlags_All :: int where "CommentTypeFlags_All = 15"
definition CommentPlacementFlags_After :: int where "CommentPlacementFlags_After = 2"

definition defaultOptions :: options where
  "defaultOptions =
    \<lparr> printWidth = 80, tabWidth = Finite 2, useTabs = False, lineBreak = False,
      commentPlacement = ''after'', commentFormat = Some Multiline,
      commentTypes = CommentTypeFlags_All,
      commentPlacementFlag = CommentPlacementFlags_After \<rparr>"

text \<open>
  What the printer reads that is not an argument: the variable \<^verbatim>\<open>sourceCode\<close>, which the
  file uses and never declares, and \<^verbatim>\<open>collectComments\<close>, imported from
  \<^verbatim>\<open>./comments\<close>, a file the repository does not have. \<open>collectComments src a b\<close> is
  the list of the (\<^verbatim>\<open>start\<close>, \<^verbatim>\<open>end\<close>) spans it returns for
  \<^verbatim>\<open>collectComments(src, a, b, { commentTypes: 'all' })\<close>.
\<close>

record env =
  sourceCode :: string
  collectComments :: "string \<Rightarrow> int \<Rightarrow> int \<Rightarrow> (int \<times> int) list"

text \<open>
  The exceptions: \<^verbatim>\<open>RangeError\<close> of \<^verbatim>\<open>' '.repeat(n)\<close> for a count it refuses,
  \<^verbatim>\<open>ReferenceError\<close> for a name that is not defined, and the two
  \<^verbatim>\<open>throw new Error(...)\<close> of \<^verbatim>\<open>prettyPrint\<close> and \<^verbatim>\<open>printStatement\<close>, with the tag
  they report.
\<close>

datatype error =
    RangeError
  | ReferenceError string
  | UnsupportedNodeType string
  | UnsupportedStatementType string

type_synonym 'a result = "error + 'a"

text \<open>A string, or \<open>None\<close> for JavaScript's \<^verbatim>\<open>undefined\<close>.\<close>

type_synonym printed = "string option"

primrec bindR :: "'a result \<Rightarrow> ('a \<Rightarrow> 'b result) \<Rightarrow> 'b result" where
  "bindR (Inl e) f = Inl e"
| "bindR (Inr x) f = f x"

text \<open>\<^verbatim>\<open>xs.map(f)\<close> calls \<open>f\<close> on the elements in order; the first exception ends it.\<close>

fun sequence :: "'a result list \<Rightarrow> 'a list result" where
  "sequence [] = Inr []"
| "sequence (r # rs) = bindR r (\<lambda>x. bindR (sequence rs) (\<lambda>xs. Inr (x # xs)))"

section \<open>Strings\<close>

definition newline :: string where "newline = [CHR 0x0A]"

text \<open>What a template literal or \<^verbatim>\<open>+=\<close> makes of a value.\<close>

fun str :: "printed \<Rightarrow> string" where
  "str None = ''undefined''"
| "str (Some s) = s"

text \<open>\<^verbatim>\<open>Array.prototype.join\<close>: an \<^verbatim>\<open>undefined\<close> element counts as the empty string.\<close>

fun join_item :: "printed \<Rightarrow> string" where
  "join_item None = []"
| "join_item (Some s) = s"

fun join :: "string \<Rightarrow> printed list \<Rightarrow> string" where
  "join sep [] = []"
| "join sep [x] = join_item x"
| "join sep (x # y # ys) = join_item x @ sep @ join sep (y # ys)"

text \<open>White space and line terminators of JavaScript among the 8-bit characters.\<close>

definition is_space :: "char \<Rightarrow> bool" where
  "is_space c = (c \<in> set [CHR 0x09, CHR 0x0A, CHR 0x0B, CHR 0x0C, CHR 0x0D, CHR 0x20, CHR 0xA0])"

definition trim :: "string \<Rightarrow> string" where
  "trim s = rev (dropWhile is_space (rev (dropWhile is_space s)))"

text \<open>\<^verbatim>\<open>s.substring(a, b)\<close>: both indices are clamped to the string and swapped if needed.\<close>

definition substring :: "string \<Rightarrow> int \<Rightarrow> int \<Rightarrow> string" where
  "substring s a b =
    (let n = int (length s);
         a' = max 0 (min a n);
         b' = max 0 (min b n);
         lo = min a' b';
         hi = max a' b'
     in take (nat (hi - lo)) (drop (nat lo) s))"

text \<open>
  The longest string that V8, the engine of Node.js, makes on a 64-bit machine; a longer
  one is refused with \<^verbatim>\<open>RangeError: Invalid string length\<close>. Other engines have other
  limits. The limit is modelled in \<^verbatim>\<open>repeat\<close>, where the configuration alone can reach
  it; the strings built from the tree are taken to fit.
\<close>

definition max_string_length :: int where
  "max_string_length = 2 ^ 29 - 24"

text \<open>
  \<^verbatim>\<open>s.repeat(count)\<close>: the count is truncated toward zero (\<^verbatim>\<open>NaN\<close> counts as \<open>0\<close>); a
  negative or infinite count raises \<^verbatim>\<open>RangeError: Invalid count value\<close>.
\<close>

fun js_repeat :: "string \<Rightarrow> number \<Rightarrow> string result" where
  "js_repeat s NaN = Inr []"
| "js_repeat s PosInfinity = Inl RangeError"
| "js_repeat s NegInfinity = Inl RangeError"
| "js_repeat s (Finite r) =
     (let n = (if r < 0 then \<lceil>r\<rceil> else \<lfloor>r\<rfloor>)
      in if n < 0 then Inl RangeError
         else if max_string_length < n * int (length s) then Inl RangeError
         else Inr (concat (replicate (nat n) s)))"

text \<open>\<^verbatim>\<open>const indentation = useTabs ? '\t' : ' '.repeat(tabWidth)\<close>, the first statement of every printer.\<close>

definition indentation :: "options \<Rightarrow> string result" where
  "indentation opts =
    (if useTabs opts then Inr [CHR 0x09]
     else js_repeat '' '' (tabWidth opts))"

text \<open>\<^verbatim>\<open>commentPlacementFlag & CommentPlacementFlags.After\<close> as a condition.\<close>

definition flag_After :: "options \<Rightarrow> bool" where
  "flag_After opts = (commentPlacementFlag opts AND CommentPlacementFlags_After \<noteq> 0)"

section \<open>The printers of \<^verbatim>\<open>pretty-printer.ts\<close>\<close>

text \<open>
  A printer of the source takes a node and calls \<^verbatim>\<open>prettyPrint\<close> on its children. Here
  a printer takes, in place of each child, the outcome of the call that the source makes
  on that child (\<open>prettyPrint env opts child\<close>, an \<open>error\<close> or what was returned), and
  uses the outcomes in the order in which the source makes the calls, so the first
  exception is the one that escapes. The child itself is passed along where the source
  tests its tag.
\<close>

definition printComment :: "env \<Rightarrow> options \<Rightarrow> int \<Rightarrow> int \<Rightarrow> printed result" where
  "printComment env opts comment_start comment_end =
    bindR (indentation opts) (\<lambda>ind.
      (case commentFormat opts of
         Some Multiline \<Rightarrow>
           Inr (Some (ind @ ''/* '' @ substring (sourceCode env) comment_start comment_end @ '' */'' @ newline))
       | Some SingleLine \<Rightarrow>
           Inr (Some (ind @ ''// '' @ substring (sourceCode env) comment_start comment_end @ newline))
       | Some Html \<Rightarrow>
           Inr (Some (ind @ ''<!-- '' @ substring (sourceCode env) comment_start comment_end @ '' -->'' @ newline))
       | Some JsDoc \<Rightarrow>
           Inr (Some (ind @ ''/** '' @ substring (sourceCode env) comment_start comment_end @ '' */'' @ newline))
       | None \<Rightarrow> Inr None))"

text \<open>
  \<open>printed_stmt\<close> is the outcome of the printer that the case of the switch calls on
  \<open>stmt\<close>. For each of the seven tags it is the printer that \<^verbatim>\<open>prettyPrint\<close> calls for
  that tag.
\<close>

definition printStatement :: "options \<Rightarrow> node \<Rightarrow> printed result \<Rightarrow> bool \<Rightarrow> printed result" where
  "printStatement opts stmt printed_stmt isLast =
    bindR (indentation opts) (\<lambda>ind.
    bindR (case shape stmt of
             ExpressionStatement _ \<Rightarrow> printed_stmt
           | VariableDeclaration _ _ \<Rightarrow> printed_stmt
           | IfStatement _ _ _ \<Rightarrow> printed_stmt
           | BlockStatement _ \<Rightarrow> printed_stmt
           | FunctionDeclaration _ _ _ \<Rightarrow> printed_stmt
           | ClassDeclaration _ _ \<Rightarrow> printed_stmt
           | ReturnStatement _ \<Rightarrow> printed_stmt
           | _ \<Rightarrow> Inl (UnsupportedStatementType (node_type (shape stmt)))) (\<lambda>p.
    let output = str p;
        output = (if \<not> isLast then output @ newline else output)
    in Inr (Some output)))"

text \<open>
  The \<^verbatim>\<open>forEach\<close> over the body of a program or of a block: \<open>len\<close> is
  \<^verbatim>\<open>body.length\<close>, \<open>index\<close> the index of the first remaining element, \<open>output\<close> the
  string so far.
\<close>

fun body_forEach ::
  "env \<Rightarrow> options \<Rightarrow> nat \<Rightarrow> nat \<Rightarrow> (node \<times> printed result) list \<Rightarrow> string \<Rightarrow> string result" where
  "body_forEach env opts len index [] output = Inr output"
| "body_forEach env opts len index ((n, printed_n) # rest) output =
    (case (case shape n of
             Comment \<Rightarrow> printComment env opts (node_start n) (node_end n)
           | _ \<Rightarrow> printStatement opts n printed_n (int index = int len - 1)) of
       Inl e \<Rightarrow> Inl e
     | Inr p \<Rightarrow> body_forEach env opts len (Suc index) rest (output @ str p))"

definition printProgram :: "env \<Rightarrow> options \<Rightarrow> (node \<times> printed result) list \<Rightarrow> printed result" where
  "printProgram env opts body =
    bindR (indentation opts) (\<lambda>ind.
    bindR (body_forEach env opts (length body) 0 body []) (\<lambda>output.
    Inr (Some (trim output))))"

definition printExpressionStatement :: "options \<Rightarrow> printed result \<Rightarrow> printed result" where
  "printExpressionStatement opts expression =
    bindR (indentation opts) (\<lambda>ind.
    bindR expression (\<lambda>e.
    let output = ind @ str e;
        output = (if flag_After opts then output @ '';'' else output)
    in Inr (Some output)))"

definition printVariableDeclarator ::
  "options \<Rightarrow> printed result \<Rightarrow> printed result option \<Rightarrow> printed result" where
  "printVariableDeclarator opts ident init =
    bindR (indentation opts) (\<lambda>ind.
    bindR ident (\<lambda>i.
    bindR (case init of
             Some printed_init \<Rightarrow> bindR printed_init (\<lambda>v. Inr (str i @ '' = '' @ str v))
           | None \<Rightarrow> Inr (str i)) (\<lambda>output.
    let output = (if flag_After opts then output @ '';'' else output)
    in Inr (Some output))))"

definition printVariableDeclaration ::
  "options \<Rightarrow> decl_kind \<Rightarrow> printed result list \<Rightarrow> printed result" where
  "printVariableDeclaration opts kind declarations =
    bindR (indentation opts) (\<lambda>ind.
    bindR (sequence declarations) (\<lambda>ds.
    let output = ind @ kind_str kind @ '' '' @ join '', '' ds;
        output = (if flag_After opts then output @ '';'' else output)
    in Inr (Some output)))"

definition printIdentifier :: "options \<Rightarrow> string \<Rightarrow> printed result" where
  "printIdentifier opts name = bindR (indentation opts) (\<lambda>ind. Inr (Some (ind @ name)))"

text \<open>
  \<^verbatim>\<open>printStatement(ifStatement.consequent, options)\<close> passes no \<^verbatim>\<open>isLast\<close>, so
  \<^verbatim>\<open>!isLast\<close> holds there.
\<close>

definition printIfStatement ::
  "options \<Rightarrow> printed result \<Rightarrow> node \<times> printed result \<Rightarrow> (node \<times> printed result) option
     \<Rightarrow> printed result" where
  "printIfStatement opts test consequent alternate =
    bindR (indentation opts) (\<lambda>ind.
    bindR test (\<lambda>t.
    let output = ind @ ''if ('' @ str t @ '')'';
        output = (if flag_After opts then output @ '' '' else output)
    in bindR (printStatement opts (fst consequent) (snd consequent) False) (\<lambda>c.
       bindR (case alternate of
                Some alt \<Rightarrow> bindR (printStatement opts (fst alt) (snd alt) False)
                                  (\<lambda>a. Inr ('' else '' @ str a))
              | None \<Rightarrow> Inr []) (\<lambda>a.
       Inr (Some (output @ str c @ a))))))"

definition printBlockStatement :: "env \<Rightarrow> options \<Rightarrow> (node \<times> printed result) list \<Rightarrow> printed result" where
  "printBlockStatement env opts body =
    bindR (indentation opts) (\<lambda>ind.
    let output = ind @ ''{'';
        output = (if lineBreak opts then output @ newline else output)
    in bindR (body_forEach env opts (length body) 0 body output) (\<lambda>output.
       let output = (if lineBreak opts then output @ newline else output)
       in Inr (Some (output @ ind @ ''}''))))"

definition printFunctionDeclaration ::
  "options \<Rightarrow> printed result \<Rightarrow> printed result list \<Rightarrow> printed result \<Rightarrow> printed result" where
  "printFunctionDeclaration opts ident params body =
    bindR (indentation opts) (\<lambda>ind.
    bindR ident (\<lambda>i.
    bindR (sequence params) (\<lambda>ps.
    let output = ind @ ''function '' @ str i @ ''('' @ join '', '' ps @ '')'';
        output = (if flag_After opts then output @ '' '' else output)
    in bindR body (\<lambda>b. Inr (Some (output @ str b))))))"

text \<open>
  The callback that \<^verbatim>\<open>printClassDeclaration\<close> maps over the spans returned by
  \<^verbatim>\<open>collectComments\<close>.
\<close>

definition format_collected :: "env \<Rightarrow> options \<Rightarrow> int \<times> int \<Rightarrow> printed" where
  "format_collected env opts comment =
    (case commentFormat opts of
       Some Multiline \<Rightarrow> Some (''/* '' @ substring (sourceCode env) (fst comment) (snd comment) @ '' */'')
     | Some SingleLine \<Rightarrow> Some (''// '' @ substring (sourceCode env) (fst comment) (snd comment))
     | Some Html \<Rightarrow> Some (''<!-- '' @ substring (sourceCode env) (fst comment) (snd comment) @ '' -->'')
     | Some JsDoc \<Rightarrow> Some (''/** '' @ substring (sourceCode env) (fst comment) (snd comment) @ '' */'')
     | None \<Rightarrow> None)"

text \<open>The callback that \<^verbatim>\<open>printClassDeclaration\<close> maps over the elements of the class body.\<close>

definition class_element_text ::
  "env \<Rightarrow> options \<Rightarrow> string \<Rightarrow> node \<times> printed result \<Rightarrow> printed result" where
  "class_element_text env opts ind element =
    (case shape (fst element) of
       Comment \<Rightarrow> printComment env opts (node_start (fst element)) (node_end (fst element))
     | _ \<Rightarrow>
         let comment = join newline (map (format_collected env opts)
               (collectComments env (sourceCode env) (node_start (fst element)) (node_end (fst element))))
         in bindR (snd element) (\<lambda>p. Inr (Some (ind @ comment @ newline @ ind @ str p))))"

definition printClassDeclaration ::
  "env \<Rightarrow> options \<Rightarrow> printed result \<Rightarrow> (node \<times> printed result) list \<Rightarrow> printed result" where
  "printClassDeclaration env opts ident body =
    bindR (indentation opts) (\<lambda>ind.
    bindR (sequence (map (class_element_text env opts ind) body)) (\<lambda>texts.
    let bodyText = join newline texts
    in bindR ident (\<lambda>i.
       Inr (Some (ind @ ''class '' @ str i @ '' {'' @ bodyText @ newline @ ind @ ''}'')))))"

text \<open>\<^verbatim>\<open>prettyPrint\<close> calls \<^verbatim>\<open>printClassBody\<close>, which no file defines or imports.\<close>

definition printClassBody :: "printed result" where
  "printClassBody = Inl (ReferenceError ''printClassBody'')"

definition printClassElement ::
  "options \<Rightarrow> node \<Rightarrow> printed result \<Rightarrow> printed result list \<Rightarrow> printed result \<Rightarrow> bool
     \<Rightarrow> printed result" where
  "printClassElement opts key printed_key params body static =
    bindR (indentation opts) (\<lambda>ind.
      if shape key = Identifier ''constructor'' then
        bindR (sequence params) (\<lambda>ps.
        bindR body (\<lambda>b.
        Inr (Some (ind @ ''constructor('' @ join '', '' ps @ '') '' @ str b))))
      else if shape key = Identifier ''static'' then
        bindR printed_key (\<lambda>k.
        bindR (sequence params) (\<lambda>ps.
        bindR body (\<lambda>b.
        Inr (Some (ind @ ''static '' @ str k @ ''('' @ join '', '' ps @ '') '' @ str b)))))
      else
        bindR printed_key (\<lambda>k.
        bindR (sequence params) (\<lambda>ps.
        bindR body (\<lambda>b.
        Inr (Some (ind @ (if static then ''static '' else []) @ str k @ ''(''
                     @ join '', '' ps @ '') '' @ str b))))))"

definition printFunctionExpression ::
  "options \<Rightarrow> printed result list \<Rightarrow> printed result \<Rightarrow> printed result" where
  "printFunctionExpression opts params body =
    bindR (indentation opts) (\<lambda>ind.
    bindR (sequence params) (\<lambda>ps.
    bindR body (\<lambda>b.
    Inr (Some (ind @ ''('' @ join '', '' ps @ '') '' @ str b)))))"

definition printReturnStatement :: "options \<Rightarrow> printed result option \<Rightarrow> printed result" where
  "printReturnStatement opts argument =
    bindR (indentation opts) (\<lambda>ind.
    let output = ind @ ''return'';
        output = (if flag_After opts then output @ '' '' else output)
    in bindR (case argument of
                Some printed_argument \<Rightarrow> bindR printed_argument (\<lambda>a. Inr ('' '' @ str a))
              | None \<Rightarrow> Inr []) (\<lambda>a.
       Inr (Some (output @ a @ '';''))))"

definition printLiteral :: "options \<Rightarrow> string \<Rightarrow> printed result" where
  "printLiteral opts raw = bindR (indentation opts) (\<lambda>ind. Inr (Some (ind @ raw)))"

text \<open>
  The two tests of a node's \<^verbatim>\<open>lineBreak\<close> bit mask, inside \<^verbatim>\<open>if (node.lineBreak)\<close>;
  a missing \<^verbatim>\<open>lineBreak\<close> is \<open>0\<close>.
\<close>

definition lineBreak_suffix :: "int \<Rightarrow> string" where
  "lineBreak_suffix lb =
    (if lb \<noteq> 0 then
       (if lb AND LineBreakFlags_Before \<noteq> 0 then newline else [])
       @ (if lb AND LineBreakFlags_After \<noteq> 0 then newline else [])
     else [])"

definition printBinaryExpression ::
  "options \<Rightarrow> printed result \<Rightarrow> string \<Rightarrow> printed result \<Rightarrow> int \<Rightarrow> printed result" where
  "printBinaryExpression opts left operator right lb =
    bindR (indentation opts) (\<lambda>ind.
    bindR left (\<lambda>l.
    let output = str l;
        output = (if flag_After opts then output @ '' '' else output)
    in bindR right (\<lambda>r.
       Inr (Some (output @ operator @ '' '' @ str r @ lineBreak_suffix lb)))))"

definition printUnaryExpression :: "options \<Rightarrow> string \<Rightarrow> printed result \<Rightarrow> printed result" where
  "printUnaryExpression opts operator argument =
    bindR (indentation opts) (\<lambda>ind.
    let output = operator;
        output = (if flag_After opts then output @ '' '' else output)
    in bindR argument (\<lambda>a. Inr (Some (output @ str a))))"

definition printCallExpression ::
  "options \<Rightarrow> printed result \<Rightarrow> printed result list \<Rightarrow> printed result" where
  "printCallExpression opts callee arguments =
    bindR (indentation opts) (\<lambda>ind.
    bindR callee (\<lambda>c.
    let output = str c;
        output = (if flag_After opts then output @ '' '' else output)
    in bindR (sequence arguments) (\<lambda>args.
       Inr (Some (output @ ''('' @ join '', '' args @ '')'')))))"

definition printMemberExpression ::
  "options \<Rightarrow> printed result \<Rightarrow> printed result \<Rightarrow> bool \<Rightarrow> printed result" where
  "printMemberExpression opts object property computed =
    bindR (indentation opts) (\<lambda>ind.
    bindR object (\<lambda>ob.
    let output = str ob;
        output = (if flag_After opts then output @ '' '' else output)
    in bindR property (\<lambda>p.
       Inr (Some (output @ (if computed then ''['' else ''.'') @ str p
                    @ (if computed then '']'' else []))))))"

text \<open>An element is \<open>None\<close> for an elision (\<^verbatim>\<open>null\<close>); the filter drops those.\<close>

definition printArrayExpression :: "options \<Rightarrow> printed result option list \<Rightarrow> printed result" where
  "printArrayExpression opts elements =
    bindR (indentation opts) (\<lambda>ind.
    bindR (sequence (map the (filter (\<lambda>element. element \<noteq> None) elements))) (\<lambda>es.
    Inr (Some (''['' @ join '', '' es @ '']''))))"

definition printObjectExpression :: "options \<Rightarrow> printed result list \<Rightarrow> printed result" where
  "printObjectExpression opts properties =
    bindR (indentation opts) (\<lambda>ind.
    bindR (sequence properties) (\<lambda>ps.
    Inr (Some (''{'' @ join '', '' ps))))"

definition printProperty :: "options \<Rightarrow> printed result \<Rightarrow> printed result \<Rightarrow> printed result" where
  "printProperty opts key val =
    bindR (indentation opts) (\<lambda>ind.
    bindR key (\<lambda>k.
    let output = str k;
        output = (if flag_After opts then output @ '' '' else output)
    in bindR val (\<lambda>v. Inr (Some (output @ '': '' @ str v)))))"

text \<open>
  Both branches of the test \<^verbatim>\<open>body.type === NodeType.BlockStatement\<close> give what
  \<^verbatim>\<open>prettyPrint\<close> gives on the body, which sends a block to \<^verbatim>\<open>printBlockStatement\<close>.
\<close>

definition printArrowFunctionExpression ::
  "options \<Rightarrow> printed result list \<Rightarrow> node \<Rightarrow> printed result \<Rightarrow> printed result" where
  "printArrowFunctionExpression opts params body printed_body =
    bindR (indentation opts) (\<lambda>ind.
    bindR (sequence params) (\<lambda>ps.
    let output = ind @ ''('' @ join '', '' ps @ '') => '';
        output = (if flag_After opts then output @ '' '' else output)
    in bindR (case shape body of BlockStatement _ \<Rightarrow> printed_body | _ \<Rightarrow> printed_body) (\<lambda>b.
       Inr (Some (output @ str b)))))"

definition printThisExpression :: "options \<Rightarrow> printed result" where
  "printThisExpression opts = bindR (indentation opts) (\<lambda>ind. Inr (Some (ind @ ''this'')))"

definition printSpreadElement :: "options \<Rightarrow> printed result \<Rightarrow> printed result" where
  "printSpreadElement opts argument =
    bindR (indentation opts) (\<lambda>ind.
    bindR argument (\<lambda>a. Inr (Some (ind @ ''...'' @ str a))))"

definition printConditionalExpression ::
  "options \<Rightarrow> printed result \<Rightarrow> printed result \<Rightarrow> printed result \<Rightarrow> int \<Rightarrow> printed result" where
  "printConditionalExpression opts test consequent alternate lb =
    bindR (indentation opts) (\<lambda>ind.
    bindR test (\<lambda>t.
    bindR consequent (\<lambda>c.
    bindR alternate (\<lambda>a.
    Inr (Some (str t @ '' ? '' @ str c @ '' : '' @ str a @ lineBreak_suffix lb))))))"

text \<open>
  The switch of \<^verbatim>\<open>prettyPrint\<close> on the tag. \<open>None\<close> is returned only for a comment, when
  \<^verbatim>\<open>commentFormat\<close> is missing.
\<close>

fun prettyPrint :: "env \<Rightarrow> options \<Rightarrow> node \<Rightarrow> printed result" where
  "prettyPrint env opts (Node s e (Program body)) =
     printProgram env opts (map (\<lambda>n. (n, prettyPrint env opts n)) body)"
| "prettyPrint env opts (Node s e (ExpressionStatement expression)) =
     printExpressionStatement opts (prettyPrint env opts expression)"
| "prettyPrint env opts (Node s e (VariableDeclaration kind declarations)) =
     printVariableDeclaration opts kind
       (map (\<lambda>d. printVariableDeclarator opts (prettyPrint env opts (fst d))
                    (map_option (prettyPrint env opts) (snd d))) declarations)"
| "prettyPrint env opts (Node s e (VariableDeclarator ident init)) =
     printVariableDeclarator opts (prettyPrint env opts ident)
       (map_option (prettyPrint env opts) init)"
| "prettyPrint env opts (Node s e (Identifier name)) = printIdentifier opts name"
| "prettyPrint env opts (Node s e (IfStatement test consequent alternate)) =
     printIfStatement opts (prettyPrint env opts test)
       (consequent, prettyPrint env opts consequent)
       (map_option (\<lambda>n. (n, prettyPrint env opts n)) alternate)"
| "prettyPrint env opts (Node s e (BlockStatement body)) =
     printBlockStatement env opts (map (\<lambda>n. (n, prettyPrint env opts n)) body)"
| "prettyPrint env opts (Node s e (FunctionDeclaration ident params body)) =
     printFunctionDeclaration opts (prettyPrint env opts ident)
       (map (prettyPrint env opts) params)
       (printBlockStatement env opts (map (\<lambda>n. (n, prettyPrint env opts n)) body))"
| "prettyPrint env opts (Node s e (ClassDeclaration ident body)) =
     printClassDeclaration env opts (prettyPrint env opts ident)
       (map (\<lambda>n. (n, prettyPrint env opts n)) body)"
| "prettyPrint env opts (Node s e (ClassBody body)) = printClassBody"
| "prettyPrint env opts (Node s e (ClassElement key params body static)) =
     printClassElement opts key (prettyPrint env opts key)
       (map (prettyPrint env opts) params)
       (printBlockStatement env opts (map (\<lambda>n. (n, prettyPrint env opts n)) body)) static"
| "prettyPrint env opts (Node s e (FunctionExpression params body)) =
     printFunctionExpression opts (map (prettyPrint env opts) params)
       (printBlockStatement env opts (map (\<lambda>n. (n, prettyPrint env opts n)) body))"
| "prettyPrint env opts (Node s e (ReturnStatement argument)) =
     printReturnStatement opts (map_option (prettyPrint env opts) argument)"
| "prettyPrint env opts (Node s e (Literal raw)) = printLiteral opts raw"
| "prettyPrint env opts (Node s e (BinaryExpression operator left right lb)) =
     printBinaryExpression opts (prettyPrint env opts left) operator
       (prettyPrint env opts right) lb"
| "prettyPrint env opts (Node s e (UnaryExpression operator argument)) =
     printUnaryExpression opts operator (prettyPrint env opts argument)"
| "prettyPrint env opts (Node s e (CallExpression callee arguments)) =
     printCallExpression opts (prettyPrint env opts callee)
       (map (prettyPrint env opts) arguments)"
| "prettyPrint env opts (Node s e (MemberExpression object property computed)) =
     printMemberExpression opts (prettyPrint env opts object)
       (prettyPrint env opts property) computed"
| "prettyPrint env opts (Node s e (ArrayExpression elements)) =
     printArrayExpression opts (map (map_option (prettyPrint env opts)) elements)"
| "prettyPrint env opts (Node s e (ObjectExpression properties)) =
     printObjectExpression opts (map (prettyPrint env opts) properties)"
| "prettyPrint env opts (Node s e (Property key val)) =
     printProperty opts (prettyPrint env opts key) (prettyPrint env opts val)"
| "prettyPrint env opts (Node s e (ArrowFunctionExpression params body)) =
     printArrowFunctionExpression opts (map (prettyPrint env opts) params) body
       (prettyPrint env opts body)"
| "prettyPrint env opts (Node s e ThisExpression) = printThisExpression opts"
| "prettyPrint env opts (Node s e (SpreadElement argument)) =
     printSpreadElement opts (prettyPrint env opts argument)"
| "prettyPrint env opts (Node s e (ConditionalExpression test consequent alternate lb)) =
     printConditionalExpression opts (prettyPrint env opts test)
       (prettyPrint env opts consequent) (prettyPrint env opts alternate) lb"
| "prettyPrint env opts (Node s e Comment) = printComment env opts s e"
| "prettyPrint env opts (Node s e (Unknown t)) = Inl (UnsupportedNodeType t)"

section \<open>Predicates and inputs used in the statements\<close>

definition ends_with :: "string \<Rightarrow> string \<Rightarrow> bool" where
  "ends_with s suffix = (length suffix \<le> length s \<and> drop (length s - length suffix) s = suffix)"

text \<open>The ambient state of the scenarios: the source text, and a comment extractor that finds nothing.\<close>

definition env_example :: env where
  "env_example = \<lparr> sourceCode = ''const x = 10; // keep'', collectComments = (\<lambda>src a b. []) \<rparr>"

text \<open>
  The trees of \<^verbatim>\<open>{a: 1, b: 2}\<close> and of \<^verbatim>\<open>{a: "}"}\<close>, whose property value is the string
  literal of a closing brace (\<open>CHR 0x22\<close> is the double quote).
\<close>

definition object_two_properties :: node where
  "object_two_properties =
     Node 0 12 (ObjectExpression
       [Node 1 5 (Property (Node 1 2 (Identifier ''a'')) (Node 4 5 (Literal ''1''))),
        Node 7 11 (Property (Node 7 8 (Identifier ''b'')) (Node 10 11 (Literal ''2'')))])"

definition object_brace_literal :: node where
  "object_brace_literal =
     Node 0 8 (ObjectExpression
       [Node 1 7 (Property (Node 1 2 (Identifier ''a''))
                           (Node 4 7 (Literal [CHR 0x22, CHR ''}'', CHR 0x22])))])"

text \<open>The tree of \<^verbatim>\<open>let x = 10, y;\<close>, and a declaration with an empty \<^verbatim>\<open>declarations\<close> array.\<close>

definition declaration_example :: node where
  "declaration_example =
     Node 0 16 (VariableDeclaration Kind_let
       [(Node 4 5 (Identifier ''x''), Some (Node 8 10 (Literal ''10''))),
        (Node 12 13 (Identifier ''y''), None)])"

definition empty_declaration :: node where
  "empty_declaration = Node 0 6 (VariableDeclaration Kind_const [])"

text \<open>The trees of \<^verbatim>\<open>[1,,2]\<close>, \<^verbatim>\<open>[1, 2]\<close> and \<^verbatim>\<open>[]\<close>.\<close>

definition array_with_elision :: node where
  "array_with_elision =
     Node 0 6 (ArrayExpression [Some (Node 1 2 (Literal ''1'')), None, Some (Node 4 5 (Literal ''2''))])"

definition array_without_elision :: node where
  "array_without_elision =
     Node 0 6 (ArrayExpression [Some (Node 1 2 (Literal ''1'')), Some (Node 4 5 (Literal ''2''))])"

definition empty_array :: node where
  "empty_array = Node 0 2 (ArrayExpression [])"

text \<open>The tree of the literal \<^verbatim>\<open>1\<close>.\<close>

definition literal_example :: node where
  "literal_example = Node 0 1 (Literal ''1'')"

text \<open>
  A tree in which no printer reads \<^verbatim>\<open>sourceCode\<close> or calls \<^verbatim>\<open>collectComments\<close>: it
  has no \<^verbatim>\<open>Comment\<close> node, and its class declarations have no body elements. (The
  elements of a \<^verbatim>\<open>ClassBody\<close> node are never printed.)
\<close>

fun source_free :: "node \<Rightarrow> bool" where
  "source_free (Node s e (Program body)) = list_all source_free body"
| "source_free (Node s e (ExpressionStatement expression)) = source_free expression"
| "source_free (Node s e (VariableDeclaration kind declarations)) =
     list_all (\<lambda>d. source_free (fst d) \<and> (case snd d of None \<Rightarrow> True | Some i \<Rightarrow> source_free i))
       declarations"
| "source_free (Node s e (VariableDeclarator ident init)) =
     (source_free ident \<and> (case init of None \<Rightarrow> True | Some i \<Rightarrow> source_free i))"
| "source_free (Node s e (Identifier name)) = True"
| "source_free (Node s e (IfStatement test consequent alternate)) =
     (source_free test \<and> source_free consequent
      \<and> (case alternate of None \<Rightarrow> True | Some a \<Rightarrow> source_free a))"
| "source_free (Node s e (BlockStatement body)) = list_all source_free body"
| "source_free (Node s e (FunctionDeclaration ident params body)) =
     (source_free ident \<and> list_all source_free params \<and> list_all source_free body)"
| "source_free (Node s e (ClassDeclaration ident body)) = (source_free ident \<and> body = [])"
| "source_free (Node s e (ClassBody body)) = True"
| "source_free (Node s e (ClassElement key params body static)) =
     (source_free key \<and> list_all source_free params \<and> list_all source_free body)"
| "source_free (Node s e (FunctionExpression params body)) =
     (list_all source_free params \<and> list_all source_free body)"
| "source_free (Node s e (ReturnStatement argument)) =
     (case argument of None \<Rightarrow> True | Some a \<Rightarrow> source_free a)"
| "source_free (Node s e (Literal raw)) = True"
| "source_free (Node s e (BinaryExpression operator left right lb)) =
     (source_free left \<and> source_free right)"
| "source_free (Node s e (UnaryExpression operator argument)) = source_free argument"
| "source_free (Node s e (CallExpression callee arguments)) =
     (source_free callee \<and> list_all source_free arguments)"
| "source_free (Node s e (MemberExpression object property computed)) =
     (source_free object \<and> source_free property)"
| "source_free (Node s e (ArrayExpression elements)) =
     list_all (\<lambda>element. case element of None \<Rightarrow> True | Some n \<Rightarrow> source_free n) elements"
| "source_free (Node s e (ObjectExpression properties)) = list_all source_free properties"
| "source_free (Node s e (Property key val)) = (source_free key \<and> source_free val)"
| "source_free (Node s e (ArrowFunctionExpression params body)) =
     (list_all source_free params \<and> source_free body)"
| "source_free (Node s e ThisExpression) = True"
| "source_free (Node s e (SpreadElement argument)) = source_free argument"
| "source_free (Node s e (ConditionalExpression test consequent alternate lb)) =
     (source_free test \<and> source_free consequent \<and> source_free alternate)"
| "source_free (Node s e Comment) = False"
| "source_free (Node s e (Unknown t)) = True"

text \<open>Two ambient states that differ in the source text only, and a comment node.\<close>

definition env_ab :: env where
  "env_ab = \<lparr> sourceCode = ''ab'', collectComments = (\<lambda>src a b. []) \<rparr>"

definition env_cd :: env where
  "env_cd = \<lparr> sourceCode = ''cd'', collectComments = (\<lambda>src a b. []) \<rparr>"

definition comment_example :: node where
  "comment_example = Node 0 2 Comment"

text \<open>The tree of \<^verbatim>\<open>1 + 2 + 3 + 4;\<close> as a program.\<close>

definition sum_example :: node where
  "sum_example =
     Node 0 14 (Program
       [Node 0 14 (ExpressionStatement
          (Node 0 13 (BinaryExpression ''+''
             (Node 0 9 (BinaryExpression ''+''
                (Node 0 5 (BinaryExpression ''+''
                   (Node 0 1 (Literal ''1'')) (Node 4 5 (Literal ''2'')) 0))
                (Node 8 9 (Literal ''3'')) 0))
             (Node 12 13 (Literal ''4'')) 0)))])"

text \<open>The seven tags that the switch of \<^verbatim>\<open>printStatement\<close> has a case for.\<close>

fun is_statement :: "shape \<Rightarrow> bool" where
  "is_statement (ExpressionStatement _) = True"
| "is_statement (VariableDeclaration _ _) = True"
| "is_statement (IfStatement _ _ _) = True"
| "is_statement (BlockStatement _) = True"
| "is_statement (FunctionDeclaration _ _ _) = True"
| "is_statement (ClassDeclaration _ _) = True"
| "is_statement (ReturnStatement _) = True"
| "is_statement _ = False"

text \<open>
  \<open>mapped_tree False n\<close>: every node of the tree has one of the tags that \<^verbatim>\<open>prettyPrint\<close>
  switches on. \<open>mapped_tree True n\<close>: moreover every child that is handed to
  \<^verbatim>\<open>printStatement\<close> (an entry of the body of a program or of a block that is not a
  comment, the consequent and the alternate of an \<^verbatim>\<open>if\<close>) has one of the seven
  statement tags.
\<close>

fun mapped_tree :: "bool \<Rightarrow> node \<Rightarrow> bool" where
  "mapped_tree strict (Node s e (Program body)) =
     list_all (\<lambda>n. mapped_tree strict n
                 \<and> (strict \<longrightarrow> shape n = Comment \<or> is_statement (shape n))) body"
| "mapped_tree strict (Node s e (ExpressionStatement expression)) = mapped_tree strict expression"
| "mapped_tree strict (Node s e (VariableDeclaration kind declarations)) =
     list_all (\<lambda>d. mapped_tree strict (fst d)
                 \<and> (case snd d of None \<Rightarrow> True | Some i \<Rightarrow> mapped_tree strict i)) declarations"
| "mapped_tree strict (Node s e (VariableDeclarator ident init)) =
     (mapped_tree strict ident \<and> (case init of None \<Rightarrow> True | Some i \<Rightarrow> mapped_tree strict i))"
| "mapped_tree strict (Node s e (Identifier name)) = True"
| "mapped_tree strict (Node s e (IfStatement test consequent alternate)) =
     (mapped_tree strict test
      \<and> mapped_tree strict consequent \<and> (strict \<longrightarrow> is_statement (shape consequent))
      \<and> (case alternate of
            None \<Rightarrow> True
          | Some a \<Rightarrow> mapped_tree strict a \<and> (strict \<longrightarrow> is_statement (shape a))))"
| "mapped_tree strict (Node s e (BlockStatement body)) =
     list_all (\<lambda>n. mapped_tree strict n
                 \<and> (strict \<longrightarrow> shape n = Comment \<or> is_statement (shape n))) body"
| "mapped_tree strict (Node s e (FunctionDeclaration ident params body)) =
     (mapped_tree strict ident \<and> list_all (mapped_tree strict) params
      \<and> list_all (\<lambda>n. mapped_tree strict n
                    \<and> (strict \<longrightarrow> shape n = Comment \<or> is_statement (shape n))) body)"
| "mapped_tree strict (Node s e (ClassDeclaration ident body)) =
     (mapped_tree strict ident \<and> list_all (mapped_tree strict) body)"
| "mapped_tree strict (Node s e (ClassBody body)) = list_all (mapped_tree strict) body"
| "mapped_tree strict (Node s e (ClassElement key params body static)) =
     (mapped_tree strict key \<and> list_all (mapped_tree strict) params
      \<and> list_all (\<lambda>n. mapped_tree strict n
                    \<and> (strict \<longrightarrow> shape n = Comment \<or> is_statement (shape n))) body)"
| "mapped_tree strict (Node s e (FunctionExpression params body)) =
     (list_all (mapped_tree strict) params
      \<and> list_all (\<lambda>n. mapped_tree strict n
                    \<and> (strict \<longrightarrow> shape n = Comment \<or> is_statement (shape n))) body)"
| "mapped_tree strict (Node s e (ReturnStatement argument)) =
     (case argument of None \<Rightarrow> True | Some a \<Rightarrow> mapped_tree strict a)"
| "mapped_tree strict (Node s e (Literal raw)) = True"
| "mapped_tree strict (Node s e (BinaryExpression operator left right lb)) =
     (mapped_tree strict left \<and> mapped_tree strict right)"
| "mapped_tree strict (Node s e (UnaryExpression operator argument)) = mapped_tree strict argument"
| "mapped_tree strict (Node s e (CallExpression callee arguments)) =
     (mapped_tree strict callee \<and> list_all (mapped_tree strict) arguments)"
| "mapped_tree strict (Node s e (MemberExpression object property computed)) =
     (mapped_tree strict object \<and> mapped_tree strict property)"
| "mapped_tree strict (Node s e (ArrayExpression elements)) =
     list_all (\<lambda>element. case element of None \<Rightarrow> True | Some n \<Rightarrow> mapped_tree strict n) elements"
| "mapped_tree strict (Node s e (ObjectExpression properties)) =
     list_all (mapped_tree strict) properties"
| "mapped_tree strict (Node s e (Property key val)) =
     (mapped_tree strict key \<and> mapped_tree strict val)"
| "mapped_tree strict (Node s e (ArrowFunctionExpression params body)) =
     (list_all (mapped_tree strict) params \<and> mapped_tree strict body)"
| "mapped_tree strict (Node s e ThisExpression) = True"
| "mapped_tree strict (Node s e (SpreadElement argument)) = mapped_tree strict argument"
| "mapped_tree strict (Node s e (ConditionalExpression test consequent alternate lb)) =
     (mapped_tree strict test \<and> mapped_tree strict consequent \<and> mapped_tree strict alternate)"
| "mapped_tree strict (Node s e Comment) = True"
| "mapped_tree strict (Node s e (Unknown t)) = False"

text \<open>The two \<^verbatim>\<open>Unsupported ... type\<close> errors, and an outcome that is one of them.\<close>

fun unsupported_error :: "error \<Rightarrow> bool" where
  "unsupported_error (UnsupportedNodeType t) = True"
| "unsupported_error (UnsupportedStatementType t) = True"
| "unsupported_error _ = False"

fun is_unsupported :: "'a result \<Rightarrow> bool" where
  "is_unsupported (Inl err) = unsupported_error err"
| "is_unsupported (Inr x) = False"

definition no_unsupported :: "'a result \<Rightarrow> bool" where
  "no_unsupported r = (\<not> is_unsupported r)"

text \<open>A program whose only body entry is the literal \<^verbatim>\<open>1\<close>, and the tree of \<^verbatim>\<open>f(1);\<close>.\<close>

definition literal_program :: node where
  "literal_program = Node 0 1 (Program [Node 0 1 (Literal ''1'')])"

definition call_example :: node where
  "call_example =
     Node 0 5 (Program
       [Node 0 5 (ExpressionStatement
          (Node 0 4 (CallExpression (Node 0 1 (Identifier ''f'')) [Node 2 3 (Literal ''1'')])))])"

text \<open>The physical lines of a string: the pieces between line feeds.\<close>

fun split_lines :: "string \<Rightarrow> string list" where
  "split_lines [] = [[]]"
| "split_lines (c # cs) =
     (if c = CHR 0x0A then [] # split_lines cs
      else (case split_lines cs of
              l # ls \<Rightarrow> (c # l) # ls
            | [] \<Rightarrow> [[c]]))"

text \<open>
  The program \<^verbatim>\<open>const x = 10; // keep\<close>: the declaration, and the comment that spans the
  last seven characters of the source text of \<open>env_example\<close>.
\<close>

definition keep_program :: node where
  "keep_program =
     Node 0 21 (Program
       [Node 0 13 (VariableDeclaration Kind_const
          [(Node 6 7 (Identifier ''x''), Some (Node 10 12 (Literal ''10'')))]),
        Node 14 21 Comment])"

text \<open>A source text that is one comment text of two lines, \<^verbatim>\<open>a\<close> and \<^verbatim>\<open>b\<close>.\<close>

definition env_two_lines :: env where
  "env_two_lines = \<lparr> sourceCode = [CHR ''a'', CHR 0x0A, CHR ''b''], collectComments = (\<lambda>src a b. []) \<rparr>"

section \<open>Lemmas\<close>

lemma bindR_eq_Inr: "bindR m f = Inr y \<longleftrightarrow> (\<exists>x. m = Inr x \<and> f x = Inr y)"
  by (cases m) simp_all

lemma count_join:
  "count_list (join sep ps) c =
     sum_list (map (\<lambda>p. count_list (join_item p) c) ps) + (length ps - 1) * count_list sep c"
  by (induction sep ps rule: join.induct) simp_all

lemma ends_with_append: "ends_with (xs @ suffix) suffix"
  by (simp add: ends_with_def)

lemma sequence_length: "sequence rs = Inr xs \<Longrightarrow> length xs = length rs"
  by (induction rs arbitrary: xs) (auto simp: bindR_eq_Inr)

lemma sequence_member: "sequence rs = Inr xs \<Longrightarrow> x \<in> set xs \<Longrightarrow> Inr x \<in> set rs"
  by (induction rs arbitrary: xs) (auto simp: bindR_eq_Inr)

lemma join_last: "ps \<noteq> [] \<Longrightarrow> \<exists>pre. join sep ps = pre @ join_item (last ps)"
  by (induction sep ps rule: join.induct) auto

lemma printVariableDeclarator_semicolon:
  assumes "flag_After opts" and "printVariableDeclarator opts ident init = Inr p"
  shows "\<exists>b. p = Some (b @ '';'')"
  using assms
  by (auto simp: printVariableDeclarator_def bindR_eq_Inr Let_def split: option.splits)

lemma the_filter_map_option:
  "map the (filter (\<lambda>element. element \<noteq> None) (map (map_option f) elements))
     = map (\<lambda>element. f (the element)) (filter (\<lambda>element. element \<noteq> None) elements)"
  by (induction elements) auto

lemma printArrayExpression_filter:
  "printArrayExpression opts (map (map_option f) elements)
     = bindR (indentation opts) (\<lambda>ind.
       bindR (sequence (map (\<lambda>element. f (the element)) (filter (\<lambda>element. element \<noteq> None) elements)))
         (\<lambda>es. Inr (Some (''['' @ join '', '' es @ '']''))))"
  unfolding printArrayExpression_def the_filter_map_option ..

lemma body_forEach_options:
  assumes "printComment env o1 = printComment env o2" and "printStatement o1 = printStatement o2"
  shows "body_forEach env o1 len index body acc = body_forEach env o2 len index body acc"
proof (induction body arbitrary: index acc)
  case Nil
  then show ?case by simp
next
  case (Cons item body)
  obtain n printed_n where item: "item = (n, printed_n)" by (cases item)
  show ?case
    unfolding item body_forEach.simps assms Cons.IH ..
qed

lemma map_map_option_cong:
  "(\<And>a. Some a \<in> set xs \<Longrightarrow> f a = g a) \<Longrightarrow> map (map_option f) xs = map (map_option g) xs"
  by (induction xs) (auto cong: map_option_cong)

lemma prettyPrint_options_cong:
  assumes ind: "indentation o1 = indentation o2"
    and after: "flag_After o1 = flag_After o2"
    and lb: "lineBreak o1 = lineBreak o2"
    and fmt: "commentFormat o1 = commentFormat o2"
  shows "prettyPrint env o1 n = prettyPrint env o2 n"
proof -
  have printComment: "printComment env o1 = printComment env o2"
    by (intro ext) (simp add: printComment_def ind fmt)
  have printStatement: "printStatement o1 = printStatement o2"
    by (intro ext) (simp add: printStatement_def ind)
  have body_forEach: "body_forEach env o1 = body_forEach env o2"
    by (intro ext) (rule body_forEach_options [OF printComment printStatement])
  have printers:
    "printProgram env o1 = printProgram env o2"
    "printExpressionStatement o1 = printExpressionStatement o2"
    "printVariableDeclarator o1 = printVariableDeclarator o2"
    "printVariableDeclaration o1 = printVariableDeclaration o2"
    "printIdentifier o1 = printIdentifier o2"
    "printIfStatement o1 = printIfStatement o2"
    "printBlockStatement env o1 = printBlockStatement env o2"
    "printFunctionDeclaration o1 = printFunctionDeclaration o2"
    "printClassDeclaration env o1 = printClassDeclaration env o2"
    "printClassElement o1 = printClassElement o2"
    "printFunctionExpression o1 = printFunctionExpression o2"
    "printReturnStatement o1 = printReturnStatement o2"
    "printLiteral o1 = printLiteral o2"
    "printBinaryExpression o1 = printBinaryExpression o2"
    "printUnaryExpression o1 = printUnaryExpression o2"
    "printCallExpression o1 = printCallExpression o2"
    "printMemberExpression o1 = printMemberExpression o2"
    "printArrayExpression o1 = printArrayExpression o2"
    "printObjectExpression o1 = printObjectExpression o2"
    "printProperty o1 = printProperty o2"
    "printArrowFunctionExpression o1 = printArrowFunctionExpression o2"
    "printThisExpression o1 = printThisExpression o2"
    "printSpreadElement o1 = printSpreadElement o2"
    "printConditionalExpression o1 = printConditionalExpression o2"
    unfolding printProgram_def printExpressionStatement_def printVariableDeclarator_def
      printVariableDeclaration_def printIdentifier_def printIfStatement_def
      printBlockStatement_def printFunctionDeclaration_def printClassDeclaration_def
      class_element_text_def format_collected_def
      printClassElement_def printFunctionExpression_def printReturnStatement_def
      printLiteral_def printBinaryExpression_def printUnaryExpression_def
      printCallExpression_def printMemberExpression_def printArrayExpression_def
      printObjectExpression_def printProperty_def printArrowFunctionExpression_def
      printThisExpression_def printSpreadElement_def printConditionalExpression_def
      ind after lb fmt printComment printStatement body_forEach
    by (rule refl)+
  from printers printComment show ?thesis
  proof (induction env o1 n rule: prettyPrint.induct)
    case (19 env opts s e elements)
    then have eq: "map (map_option (prettyPrint env opts)) elements
                     = map (map_option (prettyPrint env o2)) elements"
      by (intro map_map_option_cong) auto
    from 19 show ?case
      unfolding prettyPrint.simps eq by simp
  qed (simp_all cong: map_cong map_option_cong)
qed


lemma indentation_useTabs:
  "useTabs opts \<Longrightarrow> indentation (opts\<lparr>tabWidth := t\<rparr>) = indentation opts"
  by (simp add: indentation_def)

lemma source_free_not_Comment: "source_free n \<Longrightarrow> shape n \<noteq> Comment"
  by (cases n) auto

lemma body_forEach_env:
  assumes "\<forall>item \<in> set body. shape (fst item) \<noteq> Comment"
  shows "body_forEach env1 opts len index body acc = body_forEach env2 opts len index body acc"
  using assms
proof (induction body arbitrary: index acc)
  case Nil
  then show ?case by simp
next
  case (Cons item body)
  obtain n printed_n where item: "item = (n, printed_n)" by (cases item)
  from Cons.prems have "shape n \<noteq> Comment" by (simp add: item)
  then have step: "(case shape n of
             Comment \<Rightarrow> printComment env opts (node_start n) (node_end n)
           | _ \<Rightarrow> printStatement opts n printed_n (int index = int len - 1))
          = printStatement opts n printed_n (int index = int len - 1)" for env
    by (cases "shape n") simp_all
  have rest: "body_forEach env1 opts len (Suc index) body acc'
                = body_forEach env2 opts len (Suc index) body acc'" for acc'
    by (rule Cons.IH) (use Cons.prems in simp)
  show ?case
    unfolding item body_forEach.simps step rest ..
qed

lemma body_env:
  assumes free: "\<And>n. n \<in> set body \<Longrightarrow> source_free n"
    and same: "\<And>n. n \<in> set body \<Longrightarrow> f n = g n"
  shows "printProgram env1 opts (map (\<lambda>n. (n, f n)) body)
           = printProgram env2 opts (map (\<lambda>n. (n, g n)) body)"
    and "printBlockStatement env1 opts (map (\<lambda>n. (n, f n)) body)
           = printBlockStatement env2 opts (map (\<lambda>n. (n, g n)) body)"
proof -
  have items: "map (\<lambda>n. (n, f n)) body = map (\<lambda>n. (n, g n)) body"
    using same by simp
  have loop: "body_forEach env1 opts len index (map (\<lambda>n. (n, g n)) body) acc
                = body_forEach env2 opts len index (map (\<lambda>n. (n, g n)) body) acc"
    for len index acc
    by (rule body_forEach_env) (use free source_free_not_Comment in auto)
  show "printProgram env1 opts (map (\<lambda>n. (n, f n)) body)
           = printProgram env2 opts (map (\<lambda>n. (n, g n)) body)"
    unfolding items printProgram_def loop ..
  show "printBlockStatement env1 opts (map (\<lambda>n. (n, f n)) body)
           = printBlockStatement env2 opts (map (\<lambda>n. (n, g n)) body)"
    unfolding items printBlockStatement_def loop ..
qed

lemma no_unsupported_Inr [simp]: "no_unsupported (Inr x)"
  by (simp add: no_unsupported_def)

lemma no_unsupported_bindR:
  "no_unsupported m \<Longrightarrow> (\<And>x. no_unsupported (f x)) \<Longrightarrow> no_unsupported (bindR m f)"
  by (cases m) (simp_all add: no_unsupported_def)

lemma no_unsupported_indentation [simp]: "no_unsupported (indentation opts)"
  by (cases "tabWidth opts") (simp_all add: indentation_def no_unsupported_def Let_def)

lemma no_unsupported_sequence:
  "\<forall>r \<in> set rs. no_unsupported r \<Longrightarrow> no_unsupported (sequence rs)"
  by (induction rs) (auto intro!: no_unsupported_bindR)

lemma no_unsupported_printComment [simp]: "no_unsupported (printComment env opts a b)"
  unfolding printComment_def
  by (intro no_unsupported_bindR) (simp_all split: option.splits CommentFormat.splits)

lemma no_unsupported_printStatement:
  assumes "is_statement (shape stmt)" and "no_unsupported printed_stmt"
  shows "no_unsupported (printStatement opts stmt printed_stmt isLast)"
proof -
  from assms(1) have "(case shape stmt of
             ExpressionStatement _ \<Rightarrow> printed_stmt
           | VariableDeclaration _ _ \<Rightarrow> printed_stmt
           | IfStatement _ _ _ \<Rightarrow> printed_stmt
           | BlockStatement _ \<Rightarrow> printed_stmt
           | FunctionDeclaration _ _ _ \<Rightarrow> printed_stmt
           | ClassDeclaration _ _ \<Rightarrow> printed_stmt
           | ReturnStatement _ \<Rightarrow> printed_stmt
           | _ \<Rightarrow> Inl (UnsupportedStatementType (node_type (shape stmt)))) = printed_stmt"
    by (cases "shape stmt") simp_all
  then show ?thesis
    unfolding printStatement_def
    by (intro no_unsupported_bindR) (simp_all add: assms(2) Let_def)
qed

lemma no_unsupported_body_forEach:
  assumes "\<forall>item \<in> set body.
             shape (fst item) = Comment
             \<or> (is_statement (shape (fst item)) \<and> no_unsupported (snd item))"
  shows "no_unsupported (body_forEach env opts len index body acc)"
  using assms
proof (induction body arbitrary: index acc)
  case Nil
  then show ?case by simp
next
  case (Cons item body)
  obtain n printed_n where item: "item = (n, printed_n)" by (cases item)
  let ?step = "case shape n of
                 Comment \<Rightarrow> printComment env opts (node_start n) (node_end n)
               | _ \<Rightarrow> printStatement opts n printed_n (int index = int len - 1)"
  have step: "no_unsupported ?step"
  proof (cases "shape n = Comment")
    case True
    then show ?thesis by simp
  next
    case False
    with Cons.prems have "is_statement (shape n)" and "no_unsupported printed_n"
      by (simp_all add: item)
    then have "no_unsupported (printStatement opts n printed_n (int index = int len - 1))"
      by (rule no_unsupported_printStatement)
    with False show ?thesis by (cases "shape n") simp_all
  qed
  have rest: "no_unsupported (body_forEach env opts len (Suc index) body acc')" for acc'
    by (rule Cons.IH) (use Cons.prems in simp)
  show ?case
  proof (cases ?step)
    case (Inl err)
    with step show ?thesis by (simp add: item no_unsupported_def)
  next
    case (Inr p)
    with rest show ?thesis by (simp add: item)
  qed
qed

lemma no_unsupported_printers:
  "\<And>expression. no_unsupported expression \<Longrightarrow> no_unsupported (printExpressionStatement opts expression)"
  "\<And>ident init. no_unsupported ident \<Longrightarrow> (\<And>i. init = Some i \<Longrightarrow> no_unsupported i)
     \<Longrightarrow> no_unsupported (printVariableDeclarator opts ident init)"
  "\<And>declarations. \<forall>d \<in> set declarations. no_unsupported d
     \<Longrightarrow> no_unsupported (printVariableDeclaration opts kind declarations)"
  "no_unsupported (printIdentifier opts name)"
  "\<And>ident params body. no_unsupported ident \<Longrightarrow> \<forall>p \<in> set params. no_unsupported p
     \<Longrightarrow> no_unsupported body \<Longrightarrow> no_unsupported (printFunctionDeclaration opts ident params body)"
  "\<And>printed_key params body. no_unsupported printed_key \<Longrightarrow> \<forall>p \<in> set params. no_unsupported p
     \<Longrightarrow> no_unsupported body
     \<Longrightarrow> no_unsupported (printClassElement opts key printed_key params body static)"
  "\<And>params body. \<forall>p \<in> set params. no_unsupported p \<Longrightarrow> no_unsupported body
     \<Longrightarrow> no_unsupported (printFunctionExpression opts params body)"
  "\<And>argument. (\<And>a. argument = Some a \<Longrightarrow> no_unsupported a)
     \<Longrightarrow> no_unsupported (printReturnStatement opts argument)"
  "no_unsupported (printLiteral opts raw)"
  "\<And>left right. no_unsupported left \<Longrightarrow> no_unsupported right
     \<Longrightarrow> no_unsupported (printBinaryExpression opts left operator right lb)"
  "\<And>argument. no_unsupported argument \<Longrightarrow> no_unsupported (printUnaryExpression opts operator argument)"
  "\<And>callee arguments. no_unsupported callee \<Longrightarrow> \<forall>a \<in> set arguments. no_unsupported a
     \<Longrightarrow> no_unsupported (printCallExpression opts callee arguments)"
  "\<And>object property. no_unsupported object \<Longrightarrow> no_unsupported property
     \<Longrightarrow> no_unsupported (printMemberExpression opts object property computed)"
  "\<And>properties. \<forall>p \<in> set properties. no_unsupported p
     \<Longrightarrow> no_unsupported (printObjectExpression opts properties)"
  "\<And>key val. no_unsupported key \<Longrightarrow> no_unsupported val \<Longrightarrow> no_unsupported (printProperty opts key val)"
  "\<And>params printed_body. \<forall>p \<in> set params. no_unsupported p \<Longrightarrow> no_unsupported printed_body
     \<Longrightarrow> no_unsupported (printArrowFunctionExpression opts params body printed_body)"
  "no_unsupported (printThisExpression opts)"
  "\<And>argument. no_unsupported argument \<Longrightarrow> no_unsupported (printSpreadElement opts argument)"
  "\<And>test consequent alternate. no_unsupported test \<Longrightarrow> no_unsupported consequent
     \<Longrightarrow> no_unsupported alternate
     \<Longrightarrow> no_unsupported (printConditionalExpression opts test consequent alternate lb)"
  unfolding printExpressionStatement_def printVariableDeclarator_def
    printVariableDeclaration_def printIdentifier_def printFunctionDeclaration_def
    printClassElement_def printFunctionExpression_def printReturnStatement_def
    printLiteral_def printBinaryExpression_def printUnaryExpression_def
    printCallExpression_def printMemberExpression_def printObjectExpression_def
    printProperty_def printArrowFunctionExpression_def printThisExpression_def
    printSpreadElement_def printConditionalExpression_def Let_def
  by (auto intro!: no_unsupported_bindR no_unsupported_sequence split: option.splits shape.splits)

lemma no_unsupported_bodies:
  assumes "\<forall>item \<in> set body.
             shape (fst item) = Comment
             \<or> (is_statement (shape (fst item)) \<and> no_unsupported (snd item))"
  shows "no_unsupported (printProgram env opts body)"
    and "no_unsupported (printBlockStatement env opts body)"
  unfolding printProgram_def printBlockStatement_def Let_def
  by (intro no_unsupported_bindR no_unsupported_body_forEach assms; simp)+

lemma no_unsupported_printIfStatement:
  assumes "no_unsupported test"
    and "is_statement (shape (fst consequent))" and "no_unsupported (snd consequent)"
    and "\<And>alt. alternate = Some alt
           \<Longrightarrow> is_statement (shape (fst alt)) \<and> no_unsupported (snd alt)"
  shows "no_unsupported (printIfStatement opts test consequent alternate)"
  unfolding printIfStatement_def Let_def
  using assms
  by (auto intro!: no_unsupported_bindR no_unsupported_printStatement split: option.splits)

lemma no_unsupported_class_element_text:
  assumes "no_unsupported (snd element)"
  shows "no_unsupported (class_element_text env opts ind element)"
  unfolding class_element_text_def Let_def
  using assms
  by (cases "shape (fst element)") (auto intro!: no_unsupported_bindR)

lemma no_unsupported_printClassDeclaration:
  assumes "no_unsupported ident" and "\<forall>element \<in> set body. no_unsupported (snd element)"
  shows "no_unsupported (printClassDeclaration env opts ident body)"
  unfolding printClassDeclaration_def Let_def
  using assms
  by (auto intro!: no_unsupported_bindR no_unsupported_sequence no_unsupported_class_element_text)

lemma no_unsupported_printArrayExpression:
  assumes "\<forall>element \<in> set elements. \<forall>r. element = Some r \<longrightarrow> no_unsupported r"
  shows "no_unsupported (printArrayExpression opts elements)"
  unfolding printArrayExpression_def
  using assms
  by (auto intro!: no_unsupported_bindR no_unsupported_sequence)

lemma prettyPrint_commentTypes_unread:
  "prettyPrint env (opts\<lparr>commentTypes := kinds\<rparr>) n = prettyPrint env opts n"
  by (rule prettyPrint_options_cong) (simp_all add: indentation_def flag_After_def)

lemma printComment_placement_unread:
  "printComment env (opts\<lparr>commentPlacement := placement, commentPlacementFlag := flag\<rparr>) a b
     = printComment env opts a b"
  by (simp add: printComment_def indentation_def)

lemma sequence_list_all2: "sequence rs = Inr xs \<Longrightarrow> list_all2 (\<lambda>r x. r = Inr x) rs xs"
  by (induction rs arbitrary: xs) (auto simp: bindR_eq_Inr)

lemma join_concat:
  "join sep ps =
     (case map (\<lambda>p. case p of None \<Rightarrow> [] | Some text \<Rightarrow> text) ps of
        [] \<Rightarrow> []
      | first # rest \<Rightarrow> first @ concat (map (\<lambda>text. sep @ text) rest))"
proof (induction sep ps rule: join.induct)
  case (1 sep)
  then show ?case by simp
next
  case (2 sep x)
  then show ?case by (cases x) simp_all
next
  case (3 sep x y ys)
  then show ?case by (cases x) simp_all
qed

lemma count_join_items:
  "sum_list (map (\<lambda>p. count_list (join_item p) c) ps)
     = sum_list (map (\<lambda>text. count_list text c)
         (map (\<lambda>p. case p of None \<Rightarrow> [] | Some text \<Rightarrow> text) ps))"
proof (induction ps)
  case Nil
  then show ?case by simp
next
  case (Cons p ps)
  then show ?case by (cases p) simp_all
qed

lemma concat_replicate_single: "concat (replicate k [c]) = replicate k c"
  by (induction k) simp_all

lemma js_repeat_refused:
  assumes "count = PosInfinity \<or> count = NegInfinity
           \<or> (\<exists>r. count = Finite r \<and> (r \<le> - 1 \<or> of_int max_string_length + 1 \<le> r))"
  shows "js_repeat '' '' count = Inl RangeError"
proof (cases count)
  case (Finite r)
  with assms consider "r \<le> - 1" | "of_int max_string_length + 1 \<le> r" by auto
  then show ?thesis
  proof cases
    case 1
    then have "r < 0" and "\<lceil>r\<rceil> < 0"
      by (simp_all add: ceiling_less_iff)
    then show ?thesis by (simp add: Finite)
  next
    case 2
    then have "max_string_length + 1 \<le> \<lfloor>r\<rfloor>"
      by (simp add: le_floor_iff)
    moreover from 2 have "\<not> r < 0"
      by (simp add: max_string_length_def)
    ultimately show ?thesis by (simp add: Finite Let_def)
  qed
qed (use assms in simp_all)

lemma js_repeat_accepted:
  assumes "- 1 < r" and "r < of_int max_string_length + 1"
  shows "js_repeat '' '' (Finite r) = Inr (replicate (nat \<lfloor>r\<rfloor>) CHR '' '')"
proof (cases "r < 0")
  case True
  with assms(1) have "\<lceil>r\<rceil> = 0"
    by (simp add: ceiling_eq_iff)
  moreover from True have "\<lfloor>r\<rfloor> < 0"
    by (simp add: floor_less_iff)
  ultimately show ?thesis
    using True by (simp add: max_string_length_def)
next
  case False
  then have "0 \<le> \<lfloor>r\<rfloor>" by simp
  moreover from assms(2) have "\<lfloor>r\<rfloor> < max_string_length + 1"
    unfolding floor_less_iff by simp
  ultimately show ?thesis
    using False by (simp add: Let_def concat_replicate_single)
qed

section \<open>Object literals (C8)\<close>

text \<open>
  C8, as the code has it. Whenever an \<^verbatim>\<open>ObjectExpression\<close> is rendered, every property
  has been rendered, and the output is \<^verbatim>\<open>{\<close>, the text of the first property, and for
  each further property in order \<^verbatim>\<open>, \<close> and its text; nothing follows, no \<^verbatim>\<open>}\<close> is
  appended. The printer so adds one \<^verbatim>\<open>{\<close> and no \<^verbatim>\<open>}\<close> to the braces of the property
  texts: the output has more \<^verbatim>\<open>{\<close> than \<^verbatim>\<open>}\<close> whenever the property texts together have
  no more \<^verbatim>\<open>}\<close> than \<^verbatim>\<open>{\<close>.
\<close>

theorem printObjectExpression_no_closing_brace:
  assumes "prettyPrint env opts (Node s e (ObjectExpression properties)) = Inr out"
  shows "\<exists>rendered texts.
           list_all2 (\<lambda>property r. prettyPrint env opts property = Inr r) properties rendered \<and>
           texts = map (\<lambda>r. case r of None \<Rightarrow> [] | Some text \<Rightarrow> text) rendered \<and>
           out = Some (''{'' @ (case texts of
                                  [] \<Rightarrow> []
                                | first # rest \<Rightarrow> first @ concat (map (\<lambda>text. '', '' @ text) rest))) \<and>
           count_list (str out) CHR ''{''
             = 1 + sum_list (map (\<lambda>text. count_list text CHR ''{'') texts) \<and>
           count_list (str out) CHR ''}''
             = sum_list (map (\<lambda>text. count_list text CHR ''}'') texts) \<and>
           (sum_list (map (\<lambda>text. count_list text CHR ''}'') texts)
              \<le> sum_list (map (\<lambda>text. count_list text CHR ''{'') texts)
            \<longrightarrow> count_list (str out) CHR ''}'' < count_list (str out) CHR ''{'')"
proof -
  let ?text = "\<lambda>r. case r of None \<Rightarrow> [] | Some text \<Rightarrow> text"
  from assms obtain ps where ps: "sequence (map (prettyPrint env opts) properties) = Inr ps"
    and out: "out = Some (''{'' @ join '', '' ps)"
    by (auto simp: printObjectExpression_def bindR_eq_Inr)
  have all: "list_all2 (\<lambda>property r. prettyPrint env opts property = Inr r) properties ps"
    using sequence_list_all2 [OF ps] by (simp add: list_all2_map1)
  have shape: "out = Some (''{'' @ (case map ?text ps of
                                  [] \<Rightarrow> []
                                | first # rest \<Rightarrow> first @ concat (map (\<lambda>text. '', '' @ text) rest)))"
    unfolding out join_concat ..
  have open_count: "count_list (str out) CHR ''{''
      = 1 + sum_list (map (\<lambda>text. count_list text CHR ''{'') (map ?text ps))"
    unfolding count_join_items [symmetric] by (simp add: out count_join)
  have close_count: "count_list (str out) CHR ''}''
      = sum_list (map (\<lambda>text. count_list text CHR ''}'') (map ?text ps))"
    unfolding count_join_items [symmetric] by (simp add: out count_join)
  from open_count close_count
  have unbalanced: "sum_list (map (\<lambda>text. count_list text CHR ''}'') (map ?text ps))
              \<le> sum_list (map (\<lambda>text. count_list text CHR ''{'') (map ?text ps))
            \<longrightarrow> count_list (str out) CHR ''}'' < count_list (str out) CHR ''{''"
    by simp
  from all shape open_count close_count unbalanced show ?thesis
    by blast
qed

theorem printObjectExpression_no_closing_brace_witness:
  "prettyPrint env_example defaultOptions object_two_properties
     = Inr (Some ''{  a :   1,   b :   2'') \<and>
   (\<exists>rendered texts.
      list_all2 (\<lambda>property r. prettyPrint env_example defaultOptions property = Inr r)
        [Node 1 5 (Property (Node 1 2 (Identifier ''a'')) (Node 4 5 (Literal ''1''))),
         Node 7 11 (Property (Node 7 8 (Identifier ''b'')) (Node 10 11 (Literal ''2'')))]
        rendered \<and>
      texts = map (\<lambda>r. case r of None \<Rightarrow> [] | Some text \<Rightarrow> text) rendered \<and>
      Some ''{  a :   1,   b :   2''
        = Some (''{'' @ (case texts of
                           [] \<Rightarrow> []
                         | first # rest \<Rightarrow> first @ concat (map (\<lambda>text. '', '' @ text) rest))) \<and>
      count_list (str (Some ''{  a :   1,   b :   2'')) CHR ''{''
        = 1 + sum_list (map (\<lambda>text. count_list text CHR ''{'') texts) \<and>
      count_list (str (Some ''{  a :   1,   b :   2'')) CHR ''}''
        = sum_list (map (\<lambda>text. count_list text CHR ''}'') texts) \<and>
      (sum_list (map (\<lambda>text. count_list text CHR ''}'') texts)
          \<le> sum_list (map (\<lambda>text. count_list text CHR ''{'') texts)
        \<longrightarrow> count_list (str (Some ''{  a :   1,   b :   2'')) CHR ''}''
              < count_list (str (Some ''{  a :   1,   b :   2'')) CHR ''{''))"
proof -
  have h: "prettyPrint env_example defaultOptions
             (Node 0 12 (ObjectExpression
                [Node 1 5 (Property (Node 1 2 (Identifier ''a'')) (Node 4 5 (Literal ''1''))),
                 Node 7 11 (Property (Node 7 8 (Identifier ''b'')) (Node 10 11 (Literal ''2'')))]))
           = Inr (Some ''{  a :   1,   b :   2'')"
    by code_simp
  show ?thesis
    unfolding object_two_properties_def
    by (rule conjI [OF h printObjectExpression_no_closing_brace [OF h]])
qed

text \<open>
  C8 as stated fails: the object literal \<^verbatim>\<open>{a: "}"}\<close> is rendered without its closing
  brace, and the output has as many \<^verbatim>\<open>}\<close> as \<^verbatim>\<open>{\<close>, one of each.
\<close>

theorem printObjectExpression_balanced_counterexample:
  "prettyPrint env_example defaultOptions object_brace_literal
     = Inr (Some (''{  a :   '' @ [CHR 0x22, CHR ''}'', CHR 0x22])) \<and>
   count_list (''{  a :   '' @ [CHR 0x22, CHR ''}'', CHR 0x22]) CHR ''{'' = 1 \<and>
   count_list (''{  a :   '' @ [CHR 0x22, CHR ''}'', CHR 0x22]) CHR ''}'' = 1"
  by code_simp

section \<open>Variable declarations (C9)\<close>

text \<open>
  C9, as the code has it. When the \<^verbatim>\<open>After\<close> bit of \<^verbatim>\<open>commentPlacementFlag\<close> is set (as
  in the default options) and the declaration has at least one declarator, the rendered
  \<^verbatim>\<open>VariableDeclaration\<close> is the indentation, the kind, a space, and the declarators
  joined by \<^verbatim>\<open>, \<close>, each declarator ending in \<^verbatim>\<open>;\<close>, followed by one more \<^verbatim>\<open>;\<close>: it
  ends with two semicolons, and every declarator but the last has its \<^verbatim>\<open>;\<close> right
  before the separator.
\<close>

theorem printVariableDeclaration_double_semicolon:
  assumes after: "flag_After opts"
    and nonempty: "declarations \<noteq> []"
    and printed: "prettyPrint env opts (Node s e (VariableDeclaration kind declarations)) = Inr out"
  shows "\<exists>ind bodies.
           indentation opts = Inr ind \<and> length bodies = length declarations \<and>
           out = Some (ind @ kind_str kind @ '' ''
                        @ join '', '' (map (\<lambda>b. Some (b @ '';'')) bodies) @ '';'') \<and>
           ends_with (str out) '';;''"
proof -
  let ?rs = "map (\<lambda>d. printVariableDeclarator opts (prettyPrint env opts (fst d))
                    (map_option (prettyPrint env opts) (snd d))) declarations"
  from printed after obtain ind ds where ind: "indentation opts = Inr ind"
    and ds: "sequence ?rs = Inr ds"
    and out: "out = Some (ind @ kind_str kind @ '' '' @ join '', '' ds @ '';'')"
    by (auto simp: printVariableDeclaration_def bindR_eq_Inr Let_def)
  have "\<forall>p \<in> set ds. \<exists>b. p = Some (b @ '';'')"
  proof
    fix p assume "p \<in> set ds"
    then have "Inr p \<in> set ?rs"
      by (rule sequence_member [OF ds])
    then show "\<exists>b. p = Some (b @ '';'')"
      using printVariableDeclarator_semicolon [OF after] by auto
  qed
  then obtain bodies where bodies: "ds = map (\<lambda>b. Some (b @ '';'')) bodies"
    by (metis ex_map_conv)
  have len: "length bodies = length declarations"
    using sequence_length [OF ds] bodies by simp
  with nonempty have "bodies \<noteq> []" by auto
  then have "ds \<noteq> []" and "join_item (last ds) = last bodies @ '';''"
    by (simp_all add: bodies last_map)
  with join_last [of ds "'', ''"] obtain pre where "join '', '' ds = pre @ last bodies @ '';''"
    by auto
  then have "str out = (ind @ kind_str kind @ '' '' @ pre @ last bodies) @ '';;''"
    by (simp add: out)
  then have "ends_with (str out) '';;''"
    by (metis ends_with_append)
  with ind len out bodies show ?thesis by blast
qed

theorem printVariableDeclaration_double_semicolon_witness:
  "flag_After defaultOptions \<and>
   [(Node 4 5 (Identifier ''x''), Some (Node 8 10 (Literal ''10''))),
    (Node 12 13 (Identifier ''y''), None)] \<noteq> [] \<and>
   prettyPrint env_example defaultOptions declaration_example
     = Inr (Some ''  let   x =   10;,   y;;'') \<and>
   (\<exists>ind bodies.
      indentation defaultOptions = Inr ind \<and>
      length bodies = length [(Node 4 5 (Identifier ''x''), Some (Node 8 10 (Literal ''10''))),
                              (Node 12 13 (Identifier ''y''), None)] \<and>
      Some ''  let   x =   10;,   y;;'' =
        Some (ind @ kind_str Kind_let @ '' ''
               @ join '', '' (map (\<lambda>b. Some (b @ '';'')) bodies) @ '';'') \<and>
      ends_with (str (Some ''  let   x =   10;,   y;;'')) '';;'')"
proof -
  have after: "flag_After defaultOptions"
    by code_simp
  have nonempty: "[(Node 4 5 (Identifier ''x''), Some (Node 8 10 (Literal ''10''))),
                   (Node 12 13 (Identifier ''y''), None)] \<noteq> []"
    by simp
  have printed: "prettyPrint env_example defaultOptions
                   (Node 0 16 (VariableDeclaration Kind_let
                      [(Node 4 5 (Identifier ''x''), Some (Node 8 10 (Literal ''10''))),
                       (Node 12 13 (Identifier ''y''), None)]))
                 = Inr (Some ''  let   x =   10;,   y;;'')"
    by code_simp
  show ?thesis
    unfolding declaration_example_def
    using after nonempty printed
      printVariableDeclaration_double_semicolon [OF after nonempty printed]
    by (intro conjI)
qed

text \<open>
  C9 as stated fails for a declaration without declarators: under the default options it
  renders as \<^verbatim>\<open>  const ;\<close>, which ends with a single semicolon.
\<close>

theorem printVariableDeclaration_empty_counterexample:
  "flag_After defaultOptions \<and>
   prettyPrint env_example defaultOptions empty_declaration = Inr (Some ''  const ;'') \<and>
   \<not> ends_with ''  const ;'' '';;''"
  by code_simp

section \<open>Array literals (C10)\<close>

text \<open>
  C10, as the code has it. The elisions (\<^verbatim>\<open>null\<close> entries) of an \<^verbatim>\<open>ArrayExpression\<close> are
  removed before printing: two arrays with the same non-null elements in the same order
  render identically, and a rendered array is \<^verbatim>\<open>[\<close>, the rendered non-null elements
  joined by \<^verbatim>\<open>, \<close>, and \<^verbatim>\<open>]\<close>. So the printer emits one separator comma fewer than
  there are non-null elements when there is at least one, and none when there is none;
  the other commas of the output are those inside the rendered elements.
\<close>

theorem printArrayExpression_elisions:
  "(filter (\<lambda>element. element \<noteq> None) elements1 = filter (\<lambda>element. element \<noteq> None) elements2
      \<longrightarrow> prettyPrint env opts (Node s1 e1 (ArrayExpression elements1))
            = prettyPrint env opts (Node s2 e2 (ArrayExpression elements2))) \<and>
   (prettyPrint env opts (Node s1 e1 (ArrayExpression elements1)) = Inr out
      \<longrightarrow> (\<exists>es. sequence (map (\<lambda>element. prettyPrint env opts (the element))
                          (filter (\<lambda>element. element \<noteq> None) elements1)) = Inr es \<and>
                length es = length (filter (\<lambda>element. element \<noteq> None) elements1) \<and>
                out = Some (''['' @ join '', '' es @ '']'') \<and>
                count_list (str out) CHR '',''
                  = sum_list (map (\<lambda>p. count_list (join_item p) CHR '','') es)
                    + (if es = [] then 0 else length es - 1)))"
proof (intro conjI impI)
  assume "filter (\<lambda>element. element \<noteq> None) elements1 = filter (\<lambda>element. element \<noteq> None) elements2"
  then show "prettyPrint env opts (Node s1 e1 (ArrayExpression elements1))
               = prettyPrint env opts (Node s2 e2 (ArrayExpression elements2))"
    by (simp add: printArrayExpression_filter)
next
  let ?rs = "map (\<lambda>element. prettyPrint env opts (the element))
               (filter (\<lambda>element. element \<noteq> None) elements1)"
  assume "prettyPrint env opts (Node s1 e1 (ArrayExpression elements1)) = Inr out"
  then obtain es where es: "sequence ?rs = Inr es"
    and out: "out = Some (''['' @ join '', '' es @ '']'')"
    by (auto simp: printArrayExpression_filter bindR_eq_Inr)
  have len: "length es = length (filter (\<lambda>element. element \<noteq> None) elements1)"
    using sequence_length [OF es] by simp
  have commas: "count_list (str out) CHR '',''
                  = sum_list (map (\<lambda>p. count_list (join_item p) CHR '','') es)
                    + (if es = [] then 0 else length es - 1)"
    by (simp add: out count_join)
  from es len out commas
  show "\<exists>es. sequence ?rs = Inr es \<and>
             length es = length (filter (\<lambda>element. element \<noteq> None) elements1) \<and>
             out = Some (''['' @ join '', '' es @ '']'') \<and>
             count_list (str out) CHR '',''
               = sum_list (map (\<lambda>p. count_list (join_item p) CHR '','') es)
                 + (if es = [] then 0 else length es - 1)"
    by blast
qed

theorem printArrayExpression_elisions_witness:
  "filter (\<lambda>element. element \<noteq> None)
      [Some (Node 1 2 (Literal ''1'')), None, Some (Node 4 5 (Literal ''2''))]
    = filter (\<lambda>element. element \<noteq> None)
      [Some (Node 1 2 (Literal ''1'')), Some (Node 4 5 (Literal ''2''))] \<and>
   prettyPrint env_example defaultOptions array_with_elision = Inr (Some ''[  1,   2]'') \<and>
   prettyPrint env_example defaultOptions array_with_elision
     = prettyPrint env_example defaultOptions array_without_elision \<and>
   (\<exists>es. sequence (map (\<lambda>element. prettyPrint env_example defaultOptions (the element))
                 (filter (\<lambda>element. element \<noteq> None)
                    [Some (Node 1 2 (Literal ''1'')), None, Some (Node 4 5 (Literal ''2''))])) = Inr es \<and>
          length es = length (filter (\<lambda>element. element \<noteq> None)
                    [Some (Node 1 2 (Literal ''1'')), None, Some (Node 4 5 (Literal ''2''))]) \<and>
          Some ''[  1,   2]'' = Some (''['' @ join '', '' es @ '']'') \<and>
          count_list (str (Some ''[  1,   2]'')) CHR '',''
            = sum_list (map (\<lambda>p. count_list (join_item p) CHR '','') es)
              + (if es = [] then 0 else length es - 1))"
proof -
  have same: "filter (\<lambda>element. element \<noteq> None)
      [Some (Node 1 2 (Literal ''1'')), None, Some (Node 4 5 (Literal ''2''))]
    = filter (\<lambda>element. element \<noteq> None)
      [Some (Node 1 2 (Literal ''1'')), Some (Node 4 5 (Literal ''2''))]"
    by simp
  have printed: "prettyPrint env_example defaultOptions
        (Node 0 6 (ArrayExpression [Some (Node 1 2 (Literal ''1'')), None, Some (Node 4 5 (Literal ''2''))]))
      = Inr (Some ''[  1,   2]'')"
    by code_simp
  note inst = printArrayExpression_elisions
    [of "[Some (Node 1 2 (Literal ''1'')), None, Some (Node 4 5 (Literal ''2''))]"
        "[Some (Node 1 2 (Literal ''1'')), Some (Node 4 5 (Literal ''2''))]"
        env_example defaultOptions 0 6 0 6 "Some ''[  1,   2]''"]
  show ?thesis
    unfolding array_with_elision_def array_without_elision_def
    using same printed inst [THEN conjunct1, rule_format, OF same]
      inst [THEN conjunct2, rule_format, OF printed]
    by (intro conjI)
qed

text \<open>
  C10 as stated fails for the empty array: it renders as \<^verbatim>\<open>[]\<close>, with no comma, while
  the number of non-null elements minus one is \<open>-1\<close>.
\<close>

theorem printArrayExpression_empty_counterexample:
  "prettyPrint env_example defaultOptions empty_array = Inr (Some ''[]'') \<and>
   int (count_list ''[]'' CHR '','')
     \<noteq> int (length (filter (\<lambda>element. element \<noteq> None) ([] :: node option list))) - 1"
  by code_simp

section \<open>Configuration (C5)\<close>

text \<open>
  C5, as the code has it. The code has no check of the configuration and no
  configuration error. With \<^verbatim>\<open>useTabs\<close> set, \<^verbatim>\<open>tabWidth\<close> is not read. With \<^verbatim>\<open>useTabs\<close>
  unset, \<^verbatim>\<open>' '.repeat(tabWidth)\<close>, the first statement of every printer, raises a
  \<^verbatim>\<open>RangeError\<close> exactly when \<^verbatim>\<open>tabWidth\<close> is at most \<open>-1\<close>, is infinite, or truncates
  to more than the longest string of the engine: then every call ends in an exception
  before any child is printed, and no string is returned (the switch of \<^verbatim>\<open>prettyPrint\<close>
  fails first for an unmapped tag and for the missing \<^verbatim>\<open>printClassBody\<close>). For every other
  \<^verbatim>\<open>tabWidth\<close> that statement succeeds: the indentation is \<^verbatim>\<open>tabWidth\<close> spaces, truncated,
  so none for a \<^verbatim>\<open>tabWidth\<close> between \<open>-1\<close> and \<open>1\<close> and for a missing one.
\<close>

theorem tabWidth_range_error:
  "(useTabs opts \<longrightarrow> prettyPrint env (opts\<lparr>tabWidth := t\<rparr>) n = prettyPrint env opts n) \<and>
   (\<not> useTabs opts \<and>
    (tabWidth opts = PosInfinity \<or> tabWidth opts = NegInfinity
     \<or> (\<exists>r. tabWidth opts = Finite r \<and> (r \<le> - 1 \<or> of_int max_string_length + 1 \<le> r))) \<longrightarrow>
      prettyPrint env opts n
        = Inl (case shape n of
                 Unknown tag \<Rightarrow> UnsupportedNodeType tag
               | ClassBody body \<Rightarrow> ReferenceError ''printClassBody''
               | _ \<Rightarrow> RangeError)) \<and>
   (\<not> useTabs opts \<and>
    (tabWidth opts = NaN
     \<or> (\<exists>r. tabWidth opts = Finite r \<and> - 1 < r \<and> r < of_int max_string_length + 1)) \<longrightarrow>
      indentation opts
        = Inr (replicate (case tabWidth opts of Finite r \<Rightarrow> nat \<lfloor>r\<rfloor> | _ \<Rightarrow> 0) CHR '' ''))"
proof (intro conjI impI)
  assume "useTabs opts"
  then show "prettyPrint env (opts\<lparr>tabWidth := t\<rparr>) n = prettyPrint env opts n"
    by (intro prettyPrint_options_cong indentation_useTabs) (simp_all add: flag_After_def)
next
  assume refused: "\<not> useTabs opts \<and>
    (tabWidth opts = PosInfinity \<or> tabWidth opts = NegInfinity
     \<or> (\<exists>r. tabWidth opts = Finite r \<and> (r \<le> - 1 \<or> of_int max_string_length + 1 \<le> r)))"
  then have "js_repeat '' '' (tabWidth opts) = Inl RangeError"
    by (intro js_repeat_refused) simp
  with refused have ind: "indentation opts = Inl RangeError"
    by (simp add: indentation_def)
  obtain s e sh where n: "n = Node s e sh" by (cases n)
  show "prettyPrint env opts n
        = Inl (case shape n of
                 Unknown tag \<Rightarrow> UnsupportedNodeType tag
               | ClassBody body \<Rightarrow> ReferenceError ''printClassBody''
               | _ \<Rightarrow> RangeError)"
    unfolding n
    by (cases sh)
      (simp_all add: ind printProgram_def printExpressionStatement_def
        printVariableDeclarator_def printVariableDeclaration_def printIdentifier_def
        printIfStatement_def printBlockStatement_def printFunctionDeclaration_def
        printClassDeclaration_def printClassBody_def printClassElement_def
        printFunctionExpression_def printReturnStatement_def printLiteral_def
        printBinaryExpression_def printUnaryExpression_def printCallExpression_def
        printMemberExpression_def printArrayExpression_def printObjectExpression_def
        printProperty_def printArrowFunctionExpression_def printThisExpression_def
        printSpreadElement_def printConditionalExpression_def printComment_def)
next
  assume accepted: "\<not> useTabs opts \<and>
    (tabWidth opts = NaN
     \<or> (\<exists>r. tabWidth opts = Finite r \<and> - 1 < r \<and> r < of_int max_string_length + 1))"
  then consider "tabWidth opts = NaN"
    | r where "tabWidth opts = Finite r" and "- 1 < r" and "r < of_int max_string_length + 1"
    by auto
  then show "indentation opts
        = Inr (replicate (case tabWidth opts of Finite r \<Rightarrow> nat \<lfloor>r\<rfloor> | _ \<Rightarrow> 0) CHR '' '')"
  proof cases
    case 1
    with accepted show ?thesis by (simp add: indentation_def)
  next
    case 2
    with accepted js_repeat_accepted [OF 2(2,3)] show ?thesis
      by (simp add: indentation_def)
  qed
qed

theorem tabWidth_range_error_witness:
  "useTabs (defaultOptions\<lparr>useTabs := True\<rparr>) \<and>
   prettyPrint env_example (defaultOptions\<lparr>useTabs := True, tabWidth := Finite (- 1)\<rparr>) literal_example
     = prettyPrint env_example (defaultOptions\<lparr>useTabs := True\<rparr>) literal_example \<and>
   (\<not> useTabs (defaultOptions\<lparr>tabWidth := Finite (- 1)\<rparr>) \<and>
    (tabWidth (defaultOptions\<lparr>tabWidth := Finite (- 1)\<rparr>) = PosInfinity
     \<or> tabWidth (defaultOptions\<lparr>tabWidth := Finite (- 1)\<rparr>) = NegInfinity
     \<or> (\<exists>r. tabWidth (defaultOptions\<lparr>tabWidth := Finite (- 1)\<rparr>) = Finite r
              \<and> (r \<le> - 1 \<or> of_int max_string_length + 1 \<le> r)))) \<and>
   prettyPrint env_example (defaultOptions\<lparr>tabWidth := Finite (- 1)\<rparr>) literal_example
     = Inl RangeError \<and>
   (\<not> useTabs (defaultOptions\<lparr>tabWidth := Finite (- 1 / 2)\<rparr>) \<and>
    (tabWidth (defaultOptions\<lparr>tabWidth := Finite (- 1 / 2)\<rparr>) = NaN
     \<or> (\<exists>r. tabWidth (defaultOptions\<lparr>tabWidth := Finite (- 1 / 2)\<rparr>) = Finite r
              \<and> - 1 < r \<and> r < of_int max_string_length + 1))) \<and>
   indentation (defaultOptions\<lparr>tabWidth := Finite (- 1 / 2)\<rparr>) = Inr [] \<and>
   (\<not> useTabs (defaultOptions\<lparr>tabWidth := Finite 0\<rparr>) \<and>
    (tabWidth (defaultOptions\<lparr>tabWidth := Finite 0\<rparr>) = NaN
     \<or> (\<exists>r. tabWidth (defaultOptions\<lparr>tabWidth := Finite 0\<rparr>) = Finite r
              \<and> - 1 < r \<and> r < of_int max_string_length + 1))) \<and>
   indentation (defaultOptions\<lparr>tabWidth := Finite 0\<rparr>) = Inr []"
proof -
  have tabs: "useTabs (defaultOptions\<lparr>useTabs := True\<rparr>)"
    by simp
  have refused: "\<not> useTabs (defaultOptions\<lparr>tabWidth := Finite (- 1)\<rparr>) \<and>
    (tabWidth (defaultOptions\<lparr>tabWidth := Finite (- 1)\<rparr>) = PosInfinity
     \<or> tabWidth (defaultOptions\<lparr>tabWidth := Finite (- 1)\<rparr>) = NegInfinity
     \<or> (\<exists>r. tabWidth (defaultOptions\<lparr>tabWidth := Finite (- 1)\<rparr>) = Finite r
              \<and> (r \<le> - 1 \<or> of_int max_string_length + 1 \<le> r)))"
    by (simp add: defaultOptions_def)
  have half: "\<not> useTabs (defaultOptions\<lparr>tabWidth := Finite (- 1 / 2)\<rparr>) \<and>
    (tabWidth (defaultOptions\<lparr>tabWidth := Finite (- 1 / 2)\<rparr>) = NaN
     \<or> (\<exists>r. tabWidth (defaultOptions\<lparr>tabWidth := Finite (- 1 / 2)\<rparr>) = Finite r
              \<and> - 1 < r \<and> r < of_int max_string_length + 1))"
    by (simp add: defaultOptions_def max_string_length_def)
  have zero: "\<not> useTabs (defaultOptions\<lparr>tabWidth := Finite 0\<rparr>) \<and>
    (tabWidth (defaultOptions\<lparr>tabWidth := Finite 0\<rparr>) = NaN
     \<or> (\<exists>r. tabWidth (defaultOptions\<lparr>tabWidth := Finite 0\<rparr>) = Finite r
              \<and> - 1 < r \<and> r < of_int max_string_length + 1))"
    by (simp add: defaultOptions_def max_string_length_def)
  note at_tabs = tabWidth_range_error
    [where env = env_example and opts = "defaultOptions\<lparr>useTabs := True\<rparr>"
       and n = literal_example and t = "Finite (- 1)"]
  note at_refused = tabWidth_range_error
    [where env = env_example and opts = "defaultOptions\<lparr>tabWidth := Finite (- 1)\<rparr>"
       and n = literal_example]
  note at_half = tabWidth_range_error
    [where env = env_example and opts = "defaultOptions\<lparr>tabWidth := Finite (- 1 / 2)\<rparr>"
       and n = literal_example]
  note at_zero = tabWidth_range_error
    [where env = env_example and opts = "defaultOptions\<lparr>tabWidth := Finite 0\<rparr>"
       and n = literal_example]
  have r1: "prettyPrint env_example (defaultOptions\<lparr>tabWidth := Finite (- 1)\<rparr>) literal_example
      = Inl RangeError"
    using at_refused [THEN conjunct2, THEN conjunct1, rule_format, OF refused]
    by (simp add: literal_example_def)
  have r2: "indentation (defaultOptions\<lparr>tabWidth := Finite (- 1 / 2)\<rparr>) = Inr []"
    using at_half [THEN conjunct2, THEN conjunct2, rule_format, OF half]
    by simp
  have r3: "indentation (defaultOptions\<lparr>tabWidth := Finite 0\<rparr>) = Inr []"
    using at_zero [THEN conjunct2, THEN conjunct2, rule_format, OF zero]
    by simp
  from tabs refused half zero r1 r2 r3
    at_tabs [THEN conjunct1, rule_format, OF tabs]
  show ?thesis by simp
qed

text \<open>
  C5 as stated fails: a width of zero is accepted; so are a negative width with a
  \<^verbatim>\<open>tabWidth\<close> of \<open>-1\<close> under \<^verbatim>\<open>useTabs\<close>, and the negative \<^verbatim>\<open>tabWidth\<close> \<open>-1/2\<close>. In each
  case a string is returned.
\<close>

theorem configuration_accepted_counterexample:
  "prettyPrint env_example (defaultOptions\<lparr>printWidth := 0\<rparr>) literal_example = Inr (Some ''  1'') \<and>
   prettyPrint env_example (defaultOptions\<lparr>printWidth := - 5, tabWidth := Finite (- 1), useTabs := True\<rparr>)
     literal_example = Inr (Some [CHR 0x09, CHR ''1'']) \<and>
   prettyPrint env_example (defaultOptions\<lparr>tabWidth := Finite (- 1 / 2)\<rparr>) literal_example
     = Inr (Some ''1'')"
  by code_simp

section \<open>Dependence on the ambient source text (C3)\<close>

text \<open>
  C3, as the code has it. The result of \<^verbatim>\<open>prettyPrint\<close> is a function of the node, the
  options, the ambient \<^verbatim>\<open>sourceCode\<close> and \<^verbatim>\<open>collectComments\<close>. It does not depend on
  the ambient state when the tree has no \<^verbatim>\<open>Comment\<close> node and no class declaration with
  body elements.
\<close>

theorem prettyPrint_ambient_independent:
  assumes "source_free n"
  shows "prettyPrint env1 opts n = prettyPrint env2 opts n"
  using assms
proof (induction env1 opts n rule: prettyPrint.induct)
  case (1 env opts s e body)
  then show ?case
    unfolding prettyPrint.simps
    by (intro body_env) (auto simp: list_all_iff)
next
  case (7 env opts s e body)
  then show ?case
    unfolding prettyPrint.simps
    by (intro body_env) (auto simp: list_all_iff)
next
  case (8 env opts s e ident params body)
  then have body: "printBlockStatement env opts (map (\<lambda>n. (n, prettyPrint env opts n)) body)
      = printBlockStatement env2 opts (map (\<lambda>n. (n, prettyPrint env2 opts n)) body)"
    by (intro body_env) (auto simp: list_all_iff)
  from 8 show ?case
    unfolding prettyPrint.simps body
    by (simp add: list_all_iff cong: map_cong)
next
  case (9 env opts s e ident body)
  then show ?case
    by (simp add: printClassDeclaration_def)
next
  case (11 env opts s e key params body static)
  then have body: "printBlockStatement env opts (map (\<lambda>n. (n, prettyPrint env opts n)) body)
      = printBlockStatement env2 opts (map (\<lambda>n. (n, prettyPrint env2 opts n)) body)"
    by (intro body_env) (auto simp: list_all_iff)
  from 11 show ?case
    unfolding prettyPrint.simps body
    by (simp add: list_all_iff cong: map_cong)
next
  case (12 env opts s e params body)
  then have body: "printBlockStatement env opts (map (\<lambda>n. (n, prettyPrint env opts n)) body)
      = printBlockStatement env2 opts (map (\<lambda>n. (n, prettyPrint env2 opts n)) body)"
    by (intro body_env) (auto simp: list_all_iff)
  from 12 show ?case
    unfolding prettyPrint.simps body
    by (simp add: list_all_iff cong: map_cong)
next
  case (19 env opts s e elements)
  then have eq: "map (map_option (prettyPrint env opts)) elements
                   = map (map_option (prettyPrint env2 opts)) elements"
    by (intro map_map_option_cong) (auto simp: list_all_iff split: option.splits)
  show ?case
    unfolding prettyPrint.simps eq ..
qed (auto simp: list_all_iff split: option.splits cong: map_cong map_option_cong)

theorem prettyPrint_ambient_independent_witness:
  "source_free sum_example \<and>
   prettyPrint env_ab defaultOptions sum_example = prettyPrint env_cd defaultOptions sum_example"
proof -
  have free: "source_free sum_example"
    by code_simp
  from free prettyPrint_ambient_independent [OF free] show ?thesis
    by (intro conjI)
qed

text \<open>
  C3 as stated fails: the same comment node under the same options is rendered
  differently when the ambient source text differs.
\<close>

theorem prettyPrint_ambient_counterexample:
  "prettyPrint env_ab defaultOptions comment_example = Inr (Some (''  /* ab */'' @ newline)) \<and>
   prettyPrint env_cd defaultOptions comment_example = Inr (Some (''  /* cd */'' @ newline)) \<and>
   prettyPrint env_ab defaultOptions comment_example
     \<noteq> prettyPrint env_cd defaultOptions comment_example"
  by code_simp

section \<open>Unsupported nodes (C4)\<close>

text \<open>
  C4, as the code has it. For a node whose tag has no case in the switch of
  \<^verbatim>\<open>prettyPrint\<close>, the call raises the unsupported-node error with that tag. Conversely,
  for a tree built only from the mapped variants in which every child handed to
  \<^verbatim>\<open>printStatement\<close> has one of the seven statement tags, neither \<^verbatim>\<open>prettyPrint\<close> nor
  \<^verbatim>\<open>printStatement\<close> raises an unsupported error.
\<close>

theorem unsupported_node_error:
  "(t \<notin> set mapped_types
      \<longrightarrow> prettyPrint env opts (Node s e (Unknown t)) = Inl (UnsupportedNodeType t)) \<and>
   (mapped_tree True n \<longrightarrow> \<not> is_unsupported (prettyPrint env opts n))"
proof (intro conjI impI)
  show "prettyPrint env opts (Node s e (Unknown t)) = Inl (UnsupportedNodeType t)"
    by simp
next
  assume "mapped_tree True n"
  then have "no_unsupported (prettyPrint env opts n)"
  proof (induction env opts n rule: prettyPrint.induct)
    case (10 env opts s e body)
    then show ?case
      by (simp add: printClassBody_def no_unsupported_def)
  next
    case (19 env opts s e elements)
    have "\<forall>element \<in> set (map (map_option (prettyPrint env opts)) elements).
            \<forall>r. element = Some r \<longrightarrow> no_unsupported r"
    proof (intro ballI allI impI)
      fix element r
      assume "element \<in> set (map (map_option (prettyPrint env opts)) elements)"
        and "element = Some r"
      then obtain x where x: "x \<in> set elements" "Some r = map_option (prettyPrint env opts) x"
        by auto
      from x(2) obtain a where a: "x = Some a" "r = prettyPrint env opts a"
        by (cases x) auto
      from "19.prems" x(1) a(1) have "mapped_tree True a"
        by (auto simp: list_all_iff)
      with "19.IH" x(1) a show "no_unsupported r"
        by simp
    qed
    then show ?case
      by (simp add: no_unsupported_printArrayExpression)
  qed (auto simp: list_all_iff
         intro!: no_unsupported_printers no_unsupported_bodies no_unsupported_printIfStatement
           no_unsupported_printClassDeclaration no_unsupported_printArrayExpression
         split: option.splits)
  then show "\<not> is_unsupported (prettyPrint env opts n)"
    by (simp add: no_unsupported_def)
qed

theorem unsupported_node_error_witness:
  "''Decorator'' \<notin> set mapped_types \<and>
   prettyPrint env_example defaultOptions (Node 0 1 (Unknown ''Decorator''))
     = Inl (UnsupportedNodeType ''Decorator'') \<and>
   mapped_tree True call_example \<and>
   \<not> is_unsupported (prettyPrint env_example defaultOptions call_example)"
proof -
  have unmapped: "''Decorator'' \<notin> set mapped_types"
    by (simp add: mapped_types_def)
  have mapped: "mapped_tree True call_example"
    by code_simp
  note at_unknown = unsupported_node_error
    [where t = "''Decorator''" and env = env_example and opts = defaultOptions
       and s = 0 and e = 1]
  note at_call = unsupported_node_error
    [where n = call_example and env = env_example and opts = defaultOptions]
  from unmapped mapped at_unknown [THEN conjunct1, rule_format, OF unmapped]
    at_call [THEN conjunct2, rule_format, OF mapped]
  show ?thesis
    by (intro conjI)
qed

text \<open>
  C4 as stated fails: a program whose body holds a literal is built only from mapped
  variants, and \<^verbatim>\<open>printStatement\<close> raises its unsupported error on it.
\<close>

theorem unsupported_statement_counterexample:
  "mapped_tree False literal_program \<and>
   prettyPrint env_example defaultOptions literal_program
     = Inl (UnsupportedStatementType ''Literal'')"
  by code_simp

section \<open>Line width (C1)\<close>

text \<open>
  C1 fails on the code: \<^verbatim>\<open>printWidth\<close> is never read. The statement
  \<^verbatim>\<open>1 + 2 + 3 + 4;\<close> under a width of 10 is rendered on a single line of 20 characters,
  which holds four literals and three operators.
\<close>

theorem printWidth_exceeded:
  "prettyPrint env_example (defaultOptions\<lparr>printWidth := 10\<rparr>) sum_example
     = Inr (Some ''1 +   2 +   3 +   4;'') \<and>
   split_lines ''1 +   2 +   3 +   4;'' = [''1 +   2 +   3 +   4;''] \<and>
   length ''1 +   2 +   3 +   4;'' = 20 \<and>
   \<not> list_all (\<lambda>line. int (length line) \<le> printWidth (defaultOptions\<lparr>printWidth := 10\<rparr>))
         (split_lines ''1 +   2 +   3 +   4;'')"
  by code_simp

section \<open>Comment filter (C2)\<close>

text \<open>
  C2 fails on the code: \<^verbatim>\<open>commentTypes\<close> is never read. With the filter set to
  \<^verbatim>\<open>CommentTypeFlags.None\<close>, which retains no kind of comment, the comment of
  \<^verbatim>\<open>const x = 10; // keep\<close> is still in the output.
\<close>

theorem commentTypes_ignored:
  "prettyPrint env_example (defaultOptions\<lparr>commentTypes := CommentTypeFlags_None\<rparr>) keep_program
     = Inr (Some (''const   x =   10;;'' @ newline @ ''  /* // keep */''))"
  by code_simp

section \<open>The trailing comment scenario (C6)\<close>

text \<open>
  C6 fails on the code: \<^verbatim>\<open>const x = 10;\<close> with the trailing comment \<^verbatim>\<open>// keep\<close> is
  rendered, under the default options (placement \<^verbatim>\<open>After\<close>, width 80), on two lines,
  with the indentation of each identifier and literal inside the line and with two
  semicolons; under no comment format is the output \<^verbatim>\<open>const x = 10; // keep\<close>.
\<close>

theorem trailing_comment_scenario:
  "prettyPrint env_example defaultOptions keep_program
     = Inr (Some (''const   x =   10;;'' @ newline @ ''  /* // keep */'')) \<and>
   (\<forall>fmt. prettyPrint env_example (defaultOptions\<lparr>commentFormat := fmt\<rparr>) keep_program
            \<noteq> Inr (Some ''const x = 10; // keep''))"
proof -
  have default: "prettyPrint env_example defaultOptions keep_program
      = Inr (Some (''const   x =   10;;'' @ newline @ ''  /* // keep */''))"
    by code_simp
  have missing: "prettyPrint env_example (defaultOptions\<lparr>commentFormat := None\<rparr>) keep_program
      \<noteq> Inr (Some ''const x = 10; // keep'')"
    by code_simp
  have multiline: "prettyPrint env_example (defaultOptions\<lparr>commentFormat := Some Multiline\<rparr>) keep_program
      \<noteq> Inr (Some ''const x = 10; // keep'')"
    by code_simp
  have singleline: "prettyPrint env_example (defaultOptions\<lparr>commentFormat := Some SingleLine\<rparr>) keep_program
      \<noteq> Inr (Some ''const x = 10; // keep'')"
    by code_simp
  have html: "prettyPrint env_example (defaultOptions\<lparr>commentFormat := Some Html\<rparr>) keep_program
      \<noteq> Inr (Some ''const x = 10; // keep'')"
    by code_simp
  have jsdoc: "prettyPrint env_example (defaultOptions\<lparr>commentFormat := Some JsDoc\<rparr>) keep_program
      \<noteq> Inr (Some ''const x = 10; // keep'')"
    by code_simp
  have "prettyPrint env_example (defaultOptions\<lparr>commentFormat := fmt\<rparr>) keep_program
          \<noteq> Inr (Some ''const x = 10; // keep'')" for fmt
  proof (cases fmt)
    case None
    with missing show ?thesis by simp
  next
    case (Some format)
    with multiline singleline html jsdoc show ?thesis
      by (cases format) simp_all
  qed
  with default show ?thesis by blast
qed

section \<open>Comment styles (C7)\<close>

text \<open>
  C7 fails on the code for the doc style: \<^verbatim>\<open>printComment\<close> wraps the whole text in
  \<^verbatim>\<open>/** \<close> and \<^verbatim>\<open> */\<close> once. For a comment text of the two lines \<^verbatim>\<open>a\<close> and \<^verbatim>\<open>b\<close>
  the second physical line of the output is \<^verbatim>\<open>b */\<close>, without a leading \<^verbatim>\<open>*\<close>.
\<close>

theorem jsdoc_continuation_line:
  "printComment env_two_lines (defaultOptions\<lparr>commentFormat := Some JsDoc\<rparr>) 0 3
     = Inr (Some (''  /** a'' @ newline @ ''b */'' @ newline)) \<and>
   split_lines (''  /** a'' @ newline @ ''b */'' @ newline) = [''  /** a'', ''b */'', ''''] \<and>
   hd (dropWhile is_space ''b */'') \<noteq> CHR ''*''"
  by code_simp

end
